theory Spec2Isabelle
  imports Main
begin

section \<open>JavaScript values, errors and string helpers\<close>

text \<open>
  The server is a TypeScript program on Node.js. Everything it obtains from its
  surroundings (operating system queries, the \<open>path\<close> library, the file system, the
  generative provider, the clock) is collected in a record \<open>node\<close> below; the files it
  leaves behind and the requests it issues are collected in a record \<open>world\<close> that is
  passed through every effectful function. A \<open>char\<close> stands for one code unit of a
  JavaScript string.
\<close>

text \<open>
  Thrown values. \<open>JsError m\<close> is an \<open>Error\<close> instance with message \<open>m\<close> (a TypeError, a
  file-system error, a provider error), \<open>McpError c m\<close> is the protocol error built by
  \<open>new McpError(c, m)\<close>, and \<open>Thrown s\<close> is a thrown value that is not an \<open>Error\<close>, with
  \<open>s\<close> the text \<open>String\<close> gives for it.
\<close>

datatype error_code = InternalError

datatype js_error = JsError string | McpError error_code string | Thrown string

fun code_text :: "error_code \<Rightarrow> string" where
  "code_text InternalError = ''-32603''"

text \<open>\<open>error instanceof Error\<close>, \<open>error instanceof McpError\<close>, \<open>error.message\<close>. The
  constructor of \<open>McpError\<close> passes \<open>`MCP error ${code}: ${message}`\<close> to \<open>Error\<close>. The
  message is read from \<open>Error\<close> instances only, so it is left unspecified elsewhere.\<close>

fun instanceof_Error :: "js_error \<Rightarrow> bool" where
  "instanceof_Error (Thrown s) = False"
| "instanceof_Error e = True"

fun instanceof_McpError :: "js_error \<Rightarrow> bool" where
  "instanceof_McpError (McpError c m) = True"
| "instanceof_McpError e = False"

fun error_message :: "js_error \<Rightarrow> string" where
  "error_message (JsError m) = m"
| "error_message (McpError c m) = ''MCP error '' @ code_text c @ '': '' @ m"

text \<open>\<open>error instanceof Error ? error.message : String(error)\<close>\<close>

fun message_or_String :: "js_error \<Rightarrow> string" where
  "message_or_String (Thrown s) = s"
| "message_or_String e = error_message e"

text \<open>
  A tool argument as it arrives in \<open>request.params.arguments\<close>: a string, \<open>null\<close>, or
  any other JSON value (\<open>JOther s\<close>, with \<open>s\<close> the text \<open>String\<close> gives for it). An
  absent property is \<open>None\<close> (\<open>undefined\<close>).
\<close>

datatype jsval = JNull | JStr string | JOther string

fun js_String :: "jsval option \<Rightarrow> string" where
  "js_String None = ''undefined''"
| "js_String (Some JNull) = ''null''"
| "js_String (Some (JStr s)) = s"
| "js_String (Some (JOther s)) = s"

text \<open>\<open>s.endsWith(suf)\<close>\<close>

definition endsWith :: "string \<Rightarrow> string \<Rightarrow> bool" where
  "endsWith s suf = (length suf \<le> length s \<and> drop (length s - length suf) s = suf)"

text \<open>
  \<open>s.replace(/\.[^/.]+$/, '')\<close>: the pattern matches a dot followed by one or more
  characters other than \<open>/\<close> and \<open>.\<close> up to the end of the string. Such a match has to
  start at the dot right before the longest final run of characters other than \<open>/\<close>
  and \<open>.\<close>, and that run must not be empty.
\<close>

definition strip_extension :: "string \<Rightarrow> string" where
  "strip_extension s =
     (let run = takeWhile (\<lambda>c. c \<noteq> CHR ''/'' \<and> c \<noteq> CHR ''.'') (rev s) in
      case dropWhile (\<lambda>c. c \<noteq> CHR ''/'' \<and> c \<noteq> CHR ''.'') (rev s) of
        [] \<Rightarrow> s
      | c # front \<Rightarrow> if c = CHR ''.'' \<and> run \<noteq> [] then rev front else s)"

text \<open>\<open>s.replace(pat, '')\<close> with a string pattern: only the first occurrence goes.\<close>

fun remove_first :: "string \<Rightarrow> string \<Rightarrow> string" where
  "remove_first pat [] = []"
| "remove_first pat (c # cs) =
     (if take (length pat) (c # cs) = pat then drop (length pat) (c # cs)
      else c # remove_first pat cs)"

text \<open>\<open>iso.replace(/[:.]/g, '-')\<close>\<close>

definition dash_colons_dots :: "string \<Rightarrow> string" where
  "dash_colons_dots isoString = map (\<lambda>c. if c = CHR '':'' \<or> c = CHR ''.'' then CHR ''-'' else c) isoString"

text \<open>
  \<open>Buffer.from(s, 'base64')\<close>, Node's lenient decoder: decoding stops at the first
  \<open>=\<close>, characters outside the standard and the URL-safe alphabet are skipped, and an
  incomplete final group gives the bytes it determines. Bytes are numbers below 256.
\<close>

definition b64_value :: "char \<Rightarrow> nat option" where
  "b64_value c =
     (let k = (of_char c :: nat) in
      if 65 \<le> k \<and> k \<le> 90 then Some (k - 65)
      else if 97 \<le> k \<and> k \<le> 122 then Some (k - 71)
      else if 48 \<le> k \<and> k \<le> 57 then Some (k + 4)
      else if c = CHR ''+'' \<or> c = CHR ''-'' then Some 62
      else if c = CHR ''/'' \<or> c = CHR ''_'' then Some 63
      else None)"

fun b64_groups :: "nat list \<Rightarrow> nat list" where
  "b64_groups (a # b # c # d # rest) =
     [a * 4 + b div 16, (b mod 16) * 16 + c div 4, (c mod 4) * 64 + d] @ b64_groups rest"
| "b64_groups [a, b, c] = [a * 4 + b div 16, (b mod 16) * 16 + c div 4]"
| "b64_groups [a, b] = [a * 4 + b div 16]"
| "b64_groups rest = []"

definition Buffer_from_base64 :: "string \<Rightarrow> nat list" where
  "Buffer_from_base64 s =
     b64_groups (List.map_filter b64_value (takeWhile (\<lambda>c. c \<noteq> CHR ''='') s))"

section \<open>The provider's streamed responses\<close>

text \<open>
  A chunk of \<open>generateContentStream\<close>: \<open>candidates\<close>, \<open>content\<close>, \<open>parts\<close>, \<open>text\<close>,
  \<open>inlineData\<close> and \<open>data\<close> are all optional. A response is the list of chunks the
  iteration yields, followed by its normal end (\<open>None\<close>) or by an error thrown while
  the stream is requested or read (\<open>Some e\<close>).
\<close>

datatype inline_data = InlineData (inline_payload: "string option")

datatype part = Part (part_text: "string option") (part_inlineData: "inline_data option")

datatype content = Content (content_parts: "part list option")

datatype candidate = Candidate (cand_content: "content option")

datatype chunk = Chunk (chunk_candidates: "candidate list option")

datatype response = Response (resp_chunks: "chunk list") (resp_failure: "js_error option")

section \<open>The file system, the trace and the surroundings\<close>

datatype payload = Binary "nat list" | Utf8 string

datatype event =
    GenRequest string string
  | Mkdir string
  | Write string payload
  | Exec string string

text \<open>
  \<open>files\<close> maps a path to the content last written there, \<open>dirs\<close> is the set of
  existing directories, and \<open>trace\<close> lists, in order, every request sent to the provider
  (model, prompt text), every \<open>mkdirSync\<close> and \<open>writeFileSync\<close> attempted (whether it
  succeeded or not; a write with its path and content) and every command started.
\<close>

record world =
  files :: "string \<Rightarrow> payload option"
  dirs :: "string set"
  trace :: "event list"

datatype platform = Win32 | Darwin | Other

text \<open>
  What the process reads from its surroundings. \<open>os_userInfo\<close> is the user name, or
  \<open>None\<close> when \<open>os.userInfo()\<close> throws. \<open>path_join\<close>, \<open>path_normalize\<close> and
  \<open>path_dirname\<close> are the functions of Node's \<open>path\<close> module for the platform.
  \<open>mkdir_error\<close> and \<open>write_error\<close> say whether a \<open>mkdirSync\<close> or a \<open>writeFileSync\<close>
  fails in a given state, and with which error: they stand for every cause of failure
  (permissions, a full disk, a missing parent directory). \<open>generateContentStream\<close> is
  the provider: the response to a request for a model and a prompt text. \<open>date_now\<close> is
  \<open>new Date().toISOString()\<close> at the moment the image is saved.
\<close>

record node =
  os_platform :: platform
  os_homedir :: string
  os_userInfo :: "string option"
  process_cwd :: string
  process_env :: "string \<Rightarrow> string option"
  path_join :: "string list \<Rightarrow> string"
  path_normalize :: "string \<Rightarrow> string"
  path_dirname :: "string \<Rightarrow> string"
  mkdir_error :: "world \<Rightarrow> string \<Rightarrow> js_error option"
  write_error :: "world \<Rightarrow> string \<Rightarrow> payload \<Rightarrow> js_error option"
  generateContentStream :: "string \<Rightarrow> string \<Rightarrow> response"
  date_now :: string

definition imageModel :: string where
  "imageModel = ''gemini-2.0-flash-exp-image-generation''"

definition storyModel :: string where
  "storyModel = ''gemini-1.5-pro''"

text \<open>\<open>fs.existsSync\<close>: true for a file as well as for a directory.\<close>

definition existsSync :: "world \<Rightarrow> string \<Rightarrow> bool" where
  "existsSync w p = (files w p \<noteq> None \<or> p \<in> dirs w)"

text \<open>\<open>fs.mkdirSync(p, { recursive: true })\<close>: the directory is recorded (the missing
  ancestors that the call creates on the way are not); a failed call leaves files and
  directories as they were.\<close>

definition mkdirSync :: "node \<Rightarrow> string \<Rightarrow> world \<Rightarrow> (js_error + unit) \<times> world" where
  "mkdirSync n p w =
     (case mkdir_error n w p of
        Some e \<Rightarrow> (Inl e, w\<lparr>trace := trace w @ [Mkdir p]\<rparr>)
      | None \<Rightarrow> (Inr (), w\<lparr>dirs := insert p (dirs w), trace := trace w @ [Mkdir p]\<rparr>))"

text \<open>\<open>fs.writeFileSync(p, c)\<close>: a plain overwrite; a failed call leaves files and
  directories as they were.\<close>

definition writeFileSync :: "node \<Rightarrow> string \<Rightarrow> payload \<Rightarrow> world \<Rightarrow> (js_error + unit) \<times> world" where
  "writeFileSync n p c w =
     (case write_error n w p c of
        Some e \<Rightarrow> (Inl e, w\<lparr>trace := trace w @ [Write p c]\<rparr>)
      | None \<Rightarrow> (Inr (), w\<lparr>files := (files w)(p \<mapsto> c), trace := trace w @ [Write p c]\<rparr>))"

section \<open>Path resolution\<close>

text \<open>
  \<open>getDesktopPath\<close>. The \<open>try\<close> block can only be left by \<open>os.userInfo()\<close> throwing;
  the \<open>catch\<close> block then returns the home directory. An environment variable that
  is set to the empty string is falsy, like one that is not set.
\<close>

definition getDesktopPath :: "node \<Rightarrow> world \<Rightarrow> string" where
  "getDesktopPath n w =
     (let home = os_homedir n in
      case os_userInfo n of
        None \<Rightarrow> home
      | Some username \<Rightarrow>
          (case os_platform n of
             Win32 \<Rightarrow>
               (let constructed = path_join n [''C:'', ''Users'', username, ''Desktop''];
                    desktopPath =
                      (case process_env n ''USERPROFILE'' of
                         None \<Rightarrow> constructed
                       | Some up \<Rightarrow> if up \<noteq> [] then path_join n [up, ''Desktop''] else constructed)
                in if existsSync w desktopPath then desktopPath else home)
           | Darwin \<Rightarrow> path_join n [home, ''Desktop'']
           | Other \<Rightarrow>
               (let linuxDesktop = path_join n [home, ''Desktop''];
                    rest = (if existsSync w linuxDesktop then linuxDesktop else home)
                in case process_env n ''XDG_DESKTOP_DIR'' of
                     None \<Rightarrow> rest
                   | Some xdgDesktop \<Rightarrow>
                       if xdgDesktop \<noteq> [] \<and> existsSync w xdgDesktop then xdgDesktop else rest)))"

definition ensureDirectoryExists :: "node \<Rightarrow> string \<Rightarrow> world \<Rightarrow> (js_error + unit) \<times> world" where
  "ensureDirectoryExists n dirPath w =
     (if \<not> existsSync w dirPath then mkdirSync n dirPath w else (Inr (), w))"

section \<open>Saving the image and the story\<close>

text \<open>
  The \<open>try\<close> block of \<open>saveImageWithProperPath\<close> and of \<open>saveStoryWithProperPath\<close>: the two
  have the same shape and differ in the payload written.
\<close>

definition save_try :: "node \<Rightarrow> payload \<Rightarrow> string \<Rightarrow> world \<Rightarrow> (js_error + string) \<times> world" where
  "save_try n c fileName w =
     (let saveDir =
            (if process_env n ''SAVE_TO_DESKTOP'' = Some ''true''
             then path_join n [getDesktopPath n w, ''storybook-images'']
             else path_join n [process_cwd n, ''storybook-images''])
      in case ensureDirectoryExists n saveDir w of
           (Inl e, w1) \<Rightarrow> (Inl e, w1)
         | (Inr u, w1) \<Rightarrow>
             (let outputPath = path_normalize n (path_join n [saveDir, fileName])
              in case writeFileSync n outputPath c w1 of
                   (Inl e, w2) \<Rightarrow> (Inl e, w2)
                 | (Inr u, w2) \<Rightarrow> (Inr outputPath, w2)))"

text \<open>The \<open>catch\<close> block of both: nothing in it is guarded.\<close>

definition save_catch :: "node \<Rightarrow> payload \<Rightarrow> string \<Rightarrow> world \<Rightarrow> (js_error + string) \<times> world" where
  "save_catch n c fileName w =
     (let fallbackDir = path_join n [process_cwd n, ''output'']
      in case ensureDirectoryExists n fallbackDir w of
           (Inl e, w1) \<Rightarrow> (Inl e, w1)
         | (Inr u, w1) \<Rightarrow>
             (let fallbackPath = path_join n [fallbackDir, fileName]
              in case writeFileSync n fallbackPath c w1 of
                   (Inl e, w2) \<Rightarrow> (Inl e, w2)
                 | (Inr u, w2) \<Rightarrow> (Inr fallbackPath, w2)))"

definition saveImageWithProperPath ::
    "node \<Rightarrow> nat list \<Rightarrow> string \<Rightarrow> world \<Rightarrow> (js_error + string) \<times> world" where
  "saveImageWithProperPath n buffer fileName w =
     (case save_try n (Binary buffer) fileName w of
        (Inr savedPath, w1) \<Rightarrow> (Inr savedPath, w1)
      | (Inl e, w1) \<Rightarrow> save_catch n (Binary buffer) fileName w1)"

definition saveStoryWithProperPath ::
    "node \<Rightarrow> string \<Rightarrow> string \<Rightarrow> world \<Rightarrow> (js_error + string) \<times> world" where
  "saveStoryWithProperPath n story fileName w =
     (case save_try n (Utf8 story) fileName w of
        (Inr savedPath, w1) \<Rightarrow> (Inr savedPath, w1)
      | (Inl e, w1) \<Rightarrow> save_catch n (Utf8 story) fileName w1)"

section \<open>Opening the preview\<close>

text \<open>
  \<open>openInBrowser\<close> returns normally whatever happens: in a headless environment it does
  nothing, otherwise it starts the platform's opener, and a failure of that command is
  caught and logged.
\<close>

definition openInBrowser :: "node \<Rightarrow> string \<Rightarrow> world \<Rightarrow> world" where
  "openInBrowser n filePath w =
     (if process_env n ''DISPLAY'' = None \<and> os_platform n \<noteq> Win32 \<and> os_platform n \<noteq> Darwin
      then w
      else (let command = (if os_platform n = Win32 then ''explorer''
                           else if os_platform n = Darwin then ''open'' else ''xdg-open'')
            in w\<lparr>trace := trace w @ [Exec command (path_normalize n filePath)]\<rparr>))"

section \<open>Story generation\<close>

definition storyPrompt :: "jsval option \<Rightarrow> string" where
  "storyPrompt prompt =
     ''Write a short children's story based on the following prompt: \"'' @ js_String prompt @
     ''\". \<newline>'' @
     ''    The story should be engaging, appropriate for young children, have a clear beginning, middle, and end, \<newline>'' @
     ''    and convey a positive message or lesson. Keep it under 500 words.''"

text \<open>
  One turn of the loop of \<open>generateStory\<close> on the text collected so far. Reading
  \<open>candidates[0].content\<close> of an empty \<open>candidates\<close> array, or \<open>parts[0].text\<close> of an empty
  \<open>parts\<close> array, throws a TypeError.
\<close>

definition story_step :: "chunk \<Rightarrow> string \<Rightarrow> js_error + string" where
  "story_step ch storyText =
     (case chunk_candidates ch of
        None \<Rightarrow> Inr storyText
      | Some [] \<Rightarrow> Inl (JsError ''Cannot read properties of undefined (reading 'content')'')
      | Some (c # cs) \<Rightarrow>
          (case cand_content c of
             None \<Rightarrow> Inr storyText
           | Some ct \<Rightarrow>
               (case content_parts ct of
                  None \<Rightarrow> Inr storyText
                | Some [] \<Rightarrow> Inl (JsError ''Cannot read properties of undefined (reading 'text')'')
                | Some (p # ps) \<Rightarrow>
                    (case part_text p of
                       Some t \<Rightarrow> Inr (storyText @ t)
                     | None \<Rightarrow> Inr storyText))))"

fun story_loop :: "chunk list \<Rightarrow> js_error option \<Rightarrow> string \<Rightarrow> js_error + string" where
  "story_loop [] failure storyText =
     (case failure of None \<Rightarrow> Inr storyText | Some e \<Rightarrow> Inl e)"
| "story_loop (ch # rest) failure storyText =
     (case story_step ch storyText of
        Inl e \<Rightarrow> Inl e
      | Inr storyText' \<Rightarrow> story_loop rest failure storyText')"

text \<open>The text collected by the \<open>try\<close> block of \<open>generateStory\<close>, before \<open>storyText || ...\<close>.\<close>

definition collect_story :: "response \<Rightarrow> js_error + string" where
  "collect_story r = story_loop (resp_chunks r) (resp_failure r) []"

definition story_fallback :: string where
  "story_fallback = ''Once upon a time... (Story generation failed, but the image has been created)''"

definition story_of :: "js_error + string \<Rightarrow> string" where
  "story_of collected =
     (case collected of
        Inr storyText \<Rightarrow> if storyText \<noteq> [] then storyText else story_fallback
      | Inl e \<Rightarrow> ''Once upon a time... (Story generation failed: '' @ message_or_String e @ '')'')"

text \<open>The provider's answer to the story request.\<close>

definition story_response :: "node \<Rightarrow> jsval option \<Rightarrow> response" where
  "story_response n prompt = generateContentStream n storyModel (storyPrompt prompt)"

definition generateStory :: "node \<Rightarrow> jsval option \<Rightarrow> world \<Rightarrow> string \<times> world" where
  "generateStory n prompt w =
     (story_of (collect_story (story_response n prompt)),
      w\<lparr>trace := trace w @ [GenRequest storyModel (storyPrompt prompt)]\<rparr>)"

section \<open>The tool handler\<close>

record tool_args =
  arg_prompt :: "jsval option"
  arg_fileName :: "jsval option"
  arg_artStyle :: "jsval option"

text \<open>\<open>request.params\<close>: the tool's name, and \<open>arguments\<close>, which may be absent.\<close>

record request =
  tool_name :: string
  arguments :: "tool_args option"

record tool_result =
  success :: bool
  imagePath :: string
  storyPath :: string
  htmlPath :: string
  content_text :: string
  message :: string

definition imagePrompt :: "jsval \<Rightarrow> jsval option \<Rightarrow> string" where
  "imagePrompt artStyle prompt =
     ''Generate a '' @ js_String (Some artStyle) @
     '' style image for a children's storybook with this scene: '' @ js_String prompt @
     ''. \<newline>'' @
     ''      The image should be colorful, playful, and child-friendly. Use bright colors, appealing characters, \<newline>'' @
     ''      and a fun, engaging style that appeals to children.''"

text \<open>\<open>const { prompt, fileName, artStyle = "3d cartoon" } = args\<close>: the default is taken
  when the property is absent, and only then.\<close>

definition artStyle_of :: "tool_args \<Rightarrow> jsval" where
  "artStyle_of args = (case arg_artStyle args of None \<Rightarrow> JStr ''3d cartoon'' | Some v \<Rightarrow> v)"

definition storyFileName :: "string \<Rightarrow> string" where
  "storyFileName fileName = strip_extension fileName @ ''_story.txt''"

definition outputFileName :: "string \<Rightarrow> string \<Rightarrow> string" where
  "outputFileName fileName isoString =
     (let timestamp = dash_colons_dots isoString
      in if endsWith fileName ''.png'' then fileName
         else fileName @ ''_'' @ timestamp @ ''.png'')"

definition htmlFileName :: "string \<Rightarrow> string" where
  "htmlFileName outName = remove_first ''.png'' outName @ ''_preview.html''"

definition html_part1 :: string where
  "html_part1 =
     ''\<newline>'' @
     ''            <!DOCTYPE html>\<newline>'' @
     ''            <html>\<newline>'' @
     ''            <head>\<newline>'' @
     ''              <title>Storybook Preview</title>\<newline>'' @
     ''              <style>\<newline>'' @
     ''                body { font-family: Arial, sans-serif; margin: 20px; background-color: #f9f9f9; }\<newline>'' @
     ''                .container { max-width: 800px; margin: 0 auto; background: white; padding: 20px; border-radius: 10px; box-shadow: 0 2px 10px rgba(0,0,0,0.1); }\<newline>'' @
     ''                .image-container { text-align: center; margin: 20px 0; }\<newline>'' @
     ''                img { max-width: 100%; border-radius: 8px; box-shadow: 0 2px 10px rgba(0,0,0,0.1); }\<newline>'' @
     ''                .prompt { margin: 10px 0; color: #666; font-style: italic; }\<newline>'' @
     ''                .story { margin: 20px 0; line-height: 1.6; white-space: pre-line; }\<newline>'' @
     ''                .path { font-family: monospace; margin: 10px 0; font-size: 12px; color: #888; }\<newline>'' @
     ''                h1 { color: #4a4a4a; text-align: center; }\<newline>'' @
     ''                h2 { color: #5a5a5a; }\<newline>'' @
     ''              </style>\<newline>'' @
     ''            </head>\<newline>'' @
     ''            <body>\<newline>'' @
     ''              <div class=\"container\">\<newline>'' @
     ''                <h1>Storybook Image</h1>\<newline>'' @
     ''                <div class=\"prompt\">Prompt: ''"

definition html_part2 :: string where
  "html_part2 =
     ''</div>\<newline>'' @
     ''                <div class=\"image-container\">\<newline>'' @
     ''                  <img src=\"file://''"

definition html_part3 :: string where
  "html_part3 =
     ''\" alt=\"Generated storybook image\">\<newline>'' @
     ''                </div>\<newline>'' @
     ''                <h2>The Story</h2>\<newline>'' @
     ''                <div class=\"story\">''"

definition html_part4 :: string where
  "html_part4 =
     ''</div>\<newline>'' @
     ''                <div class=\"path\">Image saved to: ''"

definition html_part5 :: string where
  "html_part5 =
     ''</div>\<newline>'' @
     ''                <div class=\"path\">Story saved to: ''"

definition html_part6 :: string where
  "html_part6 =
     ''</div>\<newline>'' @
     ''              </div>\<newline>'' @
     ''            </body>\<newline>'' @
     ''            </html>\<newline>'' @
     ''            ''"

definition htmlContent :: "jsval option \<Rightarrow> string \<Rightarrow> string \<Rightarrow> string \<Rightarrow> string" where
  "htmlContent prompt savedPath story storyPath' =
     html_part1 @ js_String prompt @ html_part2 @ savedPath @ html_part3 @ story @
     html_part4 @ savedPath @ html_part5 @ storyPath' @ html_part6"

text \<open>
  One turn of the loop over the image stream: the chunk is skipped, or its first part
  carries \<open>inlineData\<close>, or reading it throws (an empty \<open>candidates\<close> or \<open>parts\<close> array).
\<close>

datatype scan = Skip | Found inline_data | Throws js_error

definition image_step :: "chunk \<Rightarrow> scan" where
  "image_step ch =
     (case chunk_candidates ch of
        None \<Rightarrow> Skip
      | Some [] \<Rightarrow> Throws (JsError ''Cannot read properties of undefined (reading 'content')'')
      | Some (c # cs) \<Rightarrow>
          (case cand_content c of
             None \<Rightarrow> Skip
           | Some ct \<Rightarrow>
               (case content_parts ct of
                  None \<Rightarrow> Skip
                | Some [] \<Rightarrow>
                    Throws (JsError ''Cannot read properties of undefined (reading 'inlineData')'')
                | Some (p # ps) \<Rightarrow>
                    (case part_inlineData p of
                       None \<Rightarrow> Skip
                     | Some d \<Rightarrow> Found d))))"

text \<open>The loop up to the first chunk with inline data; the stream ending without one
  reaches the \<open>throw\<close> after the loop.\<close>

fun image_scan :: "chunk list \<Rightarrow> js_error option \<Rightarrow> js_error + inline_data" where
  "image_scan [] failure =
     (case failure of
        Some e \<Rightarrow> Inl e
      | None \<Rightarrow> Inl (McpError InternalError ''No image data received from the API''))"
| "image_scan (ch # rest) failure =
     (case image_step ch of
        Skip \<Rightarrow> image_scan rest failure
      | Found d \<Rightarrow> Inr d
      | Throws e \<Rightarrow> Inl e)"

text \<open>What the loop body does with the first inline data: decode, save the image,
  write the preview, open it, and return the result.\<close>

text \<open>\<open>inlineData.data || ''\<close>\<close>

definition data_or_empty :: "inline_data \<Rightarrow> string" where
  "data_or_empty d = (case inline_payload d of None \<Rightarrow> [] | Some s \<Rightarrow> s)"

definition emit_storybook ::
    "node \<Rightarrow> jsval option \<Rightarrow> string \<Rightarrow> string \<Rightarrow> string \<Rightarrow> inline_data \<Rightarrow> world
      \<Rightarrow> (js_error + tool_result) \<times> world" where
  "emit_storybook n prompt fileName story storyPath' inlineData w =
     (let buffer = Buffer_from_base64 (data_or_empty inlineData);
          outName = outputFileName fileName (date_now n)
      in case saveImageWithProperPath n buffer outName w of
           (Inl e, w1) \<Rightarrow> (Inl e, w1)
         | (Inr savedPath, w1) \<Rightarrow>
             (let html = htmlContent prompt savedPath story storyPath';
                  htmlPath' = path_join n [path_dirname n savedPath, htmlFileName outName]
              in case ensureDirectoryExists n (path_dirname n htmlPath') w1 of
                   (Inl e, w2) \<Rightarrow> (Inl e, w2)
                 | (Inr u, w2) \<Rightarrow>
                     (case writeFileSync n htmlPath' (Utf8 html) w2 of
                        (Inl e, w3) \<Rightarrow> (Inl e, w3)
                      | (Inr u, w3) \<Rightarrow>
                          (Inr \<lparr>success = True,
                                imagePath = savedPath,
                                storyPath = storyPath',
                                htmlPath = htmlPath',
                                content_text =
                                  ''Storybook generated successfully!\<newline>Image saved to: '' @ savedPath @
                                  ''\<newline>Story saved to: '' @ storyPath' @
                                  ''\<newline>Preview HTML: '' @ htmlPath',
                                message = ''Storybook image and story generated and saved''\<rparr>,
                           openInBrowser n htmlPath' w3))))"

text \<open>The inner \<open>try\<close> block and its \<open>catch\<close>.\<close>

definition image_try ::
    "node \<Rightarrow> jsval option \<Rightarrow> jsval \<Rightarrow> string \<Rightarrow> string \<Rightarrow> string \<Rightarrow> world
      \<Rightarrow> (js_error + tool_result) \<times> world" where
  "image_try n prompt artStyle fileName story storyPath' w =
     (let r = generateContentStream n imageModel (imagePrompt artStyle prompt);
          w1 = w\<lparr>trace := trace w @ [GenRequest imageModel (imagePrompt artStyle prompt)]\<rparr>
      in case image_scan (resp_chunks r) (resp_failure r) of
           Inl e \<Rightarrow> (Inl e, w1)
         | Inr d \<Rightarrow> emit_storybook n prompt fileName story storyPath' d w1)"

definition image_catch :: "js_error \<Rightarrow> js_error" where
  "image_catch e =
     (if instanceof_Error e
      then McpError InternalError (''Failed to generate image: '' @ error_message e)
      else McpError InternalError ''An unknown error occurred'')"

text \<open>
  The outer \<open>try\<close> block. Destructuring \<open>undefined\<close> throws a TypeError, and so does
  calling \<open>replace\<close> on a \<open>fileName\<close> that is not a string.
\<close>

definition tool_body :: "node \<Rightarrow> request \<Rightarrow> world \<Rightarrow> (js_error + tool_result) \<times> world" where
  "tool_body n req w =
     (if tool_name req = ''generate_storybook_image'' then
        (case arguments req of
           None \<Rightarrow>
             (Inl (JsError ''Cannot destructure property 'prompt' of 'args' as it is undefined.''), w)
         | Some args \<Rightarrow>
             (case generateStory n (arg_prompt args) w of
                (story, w1) \<Rightarrow>
                  (case arg_fileName args of
                     None \<Rightarrow>
                       (Inl (JsError ''Cannot read properties of undefined (reading 'replace')''), w1)
                   | Some JNull \<Rightarrow>
                       (Inl (JsError ''Cannot read properties of null (reading 'replace')''), w1)
                   | Some (JOther s) \<Rightarrow>
                       (Inl (JsError ''fileName.replace is not a function''), w1)
                   | Some (JStr fileName) \<Rightarrow>
                       (case saveStoryWithProperPath n story (storyFileName fileName) w1 of
                          (Inl e, w2) \<Rightarrow> (Inl e, w2)
                        | (Inr storyPath', w2) \<Rightarrow>
                            (case image_try n (arg_prompt args) (artStyle_of args) fileName
                                    story storyPath' w2 of
                               (Inl e, w3) \<Rightarrow> (Inl (image_catch e), w3)
                             | (Inr res, w3) \<Rightarrow> (Inr res, w3))))))
      else (Inl (McpError InternalError (''Unknown tool: '' @ tool_name req)), w))"

definition outer_catch :: "js_error \<Rightarrow> js_error" where
  "outer_catch e =
     (if instanceof_McpError e then e
      else McpError InternalError (''Error processing request: '' @ message_or_String e))"

text \<open>
  The handler of \<open>CallToolRequestSchema\<close>: it returns a result or throws a protocol
  error to the dispatching layer, which answers the request with it. Nothing in the
  handler ends the process.
\<close>

definition handler :: "node \<Rightarrow> request \<Rightarrow> world \<Rightarrow> (js_error + tool_result) \<times> world" where
  "handler n req w =
     (case tool_body n req w of
        (Inl e, w') \<Rightarrow> (Inl (outer_catch e), w')
      | (Inr res, w') \<Rightarrow> (Inr res, w'))"


text \<open>
  \<open>server.setRequestHandler(CallToolRequestSchema, ...)\<close> and \<open>server.connect\<close>: the
  dispatching layer calls the handler for each invocation it receives and answers with
  the result or with the error thrown. Each invocation meets its own surroundings (the
  provider's answers and the clock differ from one to the next); the files persist.
\<close>

fun serve :: "(node \<times> request) list \<Rightarrow> world \<Rightarrow> (js_error + tool_result) list \<times> world" where
  "serve [] w = ([], w)"
| "serve ((n, req) # rest) w =
     (case handler n req w of
        (answer, w1) \<Rightarrow> (case serve rest w1 of (answers, w2) \<Rightarrow> (answer # answers, w2)))"

section \<open>Process bootstrap\<close>

text \<open>
  What was passed on the command line, and what \<open>parseArgs\<close> makes of it. The three
  boolean options are declared with \<open>default: false\<close>, so their values are always
  defined; \<open>api-key\<close> has no default.
\<close>

record cli_args =
  passed_api_key :: "string option"
  passed_save_to_desktop :: bool
  passed_debug :: bool
  passed_help :: bool

record cli_values =
  val_api_key :: "string option"
  val_save_to_desktop :: "bool option"
  val_debug :: "bool option"
  val_help :: "bool option"

definition parseArgs :: "cli_args \<Rightarrow> cli_values" where
  "parseArgs a =
     \<lparr>val_api_key = passed_api_key a,
      val_save_to_desktop = Some (passed_save_to_desktop a),
      val_debug = Some (passed_debug a),
      val_help = Some (passed_help a)\<rparr>"

text \<open>\<open>b.toString()\<close>\<close>

definition bool_toString :: "bool \<Rightarrow> string" where
  "bool_toString b = (if b then ''true'' else ''false'')"

text \<open>\<open>if (values['api-key']) env.GEMINI_API_KEY = values['api-key']\<close>, in all three
  launchers: an empty string is falsy.\<close>

definition set_api_key :: "cli_values \<Rightarrow> (string \<Rightarrow> string option) \<Rightarrow> (string \<Rightarrow> string option)" where
  "set_api_key v env =
     (case val_api_key v of
        None \<Rightarrow> env
      | Some k \<Rightarrow> if k \<noteq> [] then env(''GEMINI_API_KEY'' \<mapsto> k) else env)"

text \<open>The environment wiring of \<open>cli.ts\<close>: each of the two variables is written in
  either branch of its \<open>if\<close>.\<close>

definition cli_ts_env :: "cli_values \<Rightarrow> (string \<Rightarrow> string option) \<Rightarrow> (string \<Rightarrow> string option)" where
  "cli_ts_env v env =
     (let env1 = set_api_key v env;
          env2 = (if val_save_to_desktop v = Some True
                  then env1(''SAVE_TO_DESKTOP'' \<mapsto> ''true'')
                  else env1(''SAVE_TO_DESKTOP'' \<mapsto> ''false''));
          env3 = (if val_debug v = Some True
                  then env2(''DEBUG'' \<mapsto> ''true'')
                  else env2(''DEBUG'' \<mapsto> ''false''))
      in env3)"

text \<open>The environment \<open>run.mjs\<close> and \<open>run.js\<close> prepare for the child process: the two
  variables are written when the option's value is not \<open>undefined\<close>.\<close>

definition run_mjs_env :: "cli_values \<Rightarrow> (string \<Rightarrow> string option) \<Rightarrow> (string \<Rightarrow> string option)" where
  "run_mjs_env v env =
     (let env1 = set_api_key v env;
          env2 = (case val_save_to_desktop v of
                    None \<Rightarrow> env1
                  | Some b \<Rightarrow> env1(''SAVE_TO_DESKTOP'' \<mapsto> bool_toString b));
          env3 = (case val_debug v of
                    None \<Rightarrow> env2
                  | Some b \<Rightarrow> env2(''DEBUG'' \<mapsto> bool_toString b))
      in env3)"

text \<open>\<open>dotenv.config()\<close>: a variable of the \<open>.env\<close> file is added where the
  environment does not define it.\<close>

definition dotenv_config :: "(string \<Rightarrow> string option) \<Rightarrow> (string \<Rightarrow> string option) \<Rightarrow> (string \<Rightarrow> string option)" where
  "dotenv_config dotfile env = (\<lambda>k. case env k of Some v \<Rightarrow> Some v | None \<Rightarrow> dotfile k)"

text \<open>\<open>a || b\<close> on values that are strings or \<open>undefined\<close>.\<close>

definition js_or :: "string option \<Rightarrow> string option \<Rightarrow> string option" where
  "js_or a b = (case a of None \<Rightarrow> b | Some s \<Rightarrow> if s \<noteq> [] then Some s else b)"

text \<open>
  The start of \<open>index.ts\<close>, given \<open>__CLI_VALUES__['api-key']\<close>, whether \<open>--help\<close> is among
  the process arguments, the \<open>.env\<close> file and the environment: the process exits with
  code 1, or goes on to serve with \<open>API_KEY\<close> and the environment the handler will read.
\<close>

datatype startup = Exited nat | Serving "string option" "string \<Rightarrow> string option"

definition index_ts ::
    "string option \<Rightarrow> bool \<Rightarrow> (string \<Rightarrow> string option) \<Rightarrow> (string \<Rightarrow> string option) \<Rightarrow> startup" where
  "index_ts cliApiKey argv_help dotfile env0 =
     (let env = dotenv_config dotfile env0;
          API_KEY = js_or cliApiKey (env ''GEMINI_API_KEY'')
      in if (API_KEY = None \<or> API_KEY = Some []) \<and> \<not> argv_help then Exited 1
         else Serving API_KEY env)"

text \<open>
  \<open>run.mjs\<close> (the package's \<open>bin\<close>) and \<open>run.js\<close>: help ends the process; otherwise
  \<open>index.js\<close> is started as a child process with the prepared environment, without
  arguments and without \<open>__CLI_VALUES__\<close>.
\<close>

definition run_mjs :: "cli_args \<Rightarrow> (string \<Rightarrow> string option) \<Rightarrow> (string \<Rightarrow> string option) \<Rightarrow> startup" where
  "run_mjs a dotfile env =
     (let v = parseArgs a
      in if val_help v = Some True then Exited 0
         else index_ts None False dotfile (run_mjs_env v env))"

text \<open>
  \<open>cli.ts\<close> ends with the static import of \<open>index.js\<close>. Both are ES modules
  (\<open>index.ts\<close> awaits at its top level), and the static imports of an ES module are
  evaluated before its body: \<open>index.ts\<close> runs first, with \<open>__CLI_VALUES__\<close> not yet set
  and the environment as the process received it, and exits or connects the server;
  only then does the body of \<open>cli.ts\<close> parse the command line, serve a help request,
  and write the environment that later invocations read.
\<close>

definition cli_ts :: "cli_args \<Rightarrow> (string \<Rightarrow> string option) \<Rightarrow> (string \<Rightarrow> string option) \<Rightarrow> startup" where
  "cli_ts a dotfile env =
     (case index_ts None (passed_help a) dotfile env of
        Exited code \<Rightarrow> Exited code
      | Serving API_KEY env1 \<Rightarrow>
          (let cliValues = parseArgs a
           in if val_help cliValues = Some True then Exited 0
              else Serving API_KEY (cli_ts_env cliValues env1)))"

section \<open>Notions used to state the properties\<close>

text \<open>
  The text the story loop reads from a chunk: that of the first part of the first
  candidate, when it is a string.
\<close>

definition first_text :: "chunk \<Rightarrow> string" where
  "first_text ch =
     (case chunk_candidates ch of
        Some (c # cs) \<Rightarrow>
          (case cand_content c of
             Some ct \<Rightarrow>
               (case content_parts ct of
                  Some (p # ps) \<Rightarrow> (case part_text p of Some t \<Rightarrow> t | None \<Rightarrow> [])
                | _ \<Rightarrow> [])
           | None \<Rightarrow> [])
      | _ \<Rightarrow> [])"

text \<open>A chunk on which either loop throws: its \<open>candidates\<close> array is empty, or the
  \<open>parts\<close> array of its first candidate is.\<close>

definition empty_array_read :: "chunk \<Rightarrow> bool" where
  "empty_array_read ch =
     (case chunk_candidates ch of
        None \<Rightarrow> False
      | Some [] \<Rightarrow> True
      | Some (c # cs) \<Rightarrow>
          (case cand_content c of
             None \<Rightarrow> False
           | Some ct \<Rightarrow> content_parts ct = Some []))"

text \<open>
  In the words of the specification: all the parts of a chunk, over all its candidates;
  all textual fragments across all chunks, in stream order; all inline-data payloads of
  a chunk.
\<close>

definition candidate_parts :: "candidate \<Rightarrow> part list" where
  "candidate_parts c =
     (case cand_content c of
        None \<Rightarrow> []
      | Some ct \<Rightarrow> (case content_parts ct of None \<Rightarrow> [] | Some ps \<Rightarrow> ps))"

definition chunk_parts :: "chunk \<Rightarrow> part list" where
  "chunk_parts ch =
     (case chunk_candidates ch of None \<Rightarrow> [] | Some cs \<Rightarrow> concat (map candidate_parts cs))"

definition all_text_fragments :: "chunk list \<Rightarrow> string list" where
  "all_text_fragments chs = List.map_filter part_text (concat (map chunk_parts chs))"

definition chunk_inline_payloads :: "chunk \<Rightarrow> inline_data list" where
  "chunk_inline_payloads ch = List.map_filter part_inlineData (chunk_parts ch)"

text \<open>A chunk with at most one candidate and at most one part.\<close>

definition single_part :: "chunk \<Rightarrow> bool" where
  "single_part ch =
     (length (chunk_parts ch) \<le> 1 \<and>
      (case chunk_candidates ch of None \<Rightarrow> True | Some cs \<Rightarrow> length cs \<le> 1))"

text \<open>
  A call of the tool \<open>generate_storybook_image\<close> with an arguments object; the
  provider's answer to its image request; the state once that request has been sent.
\<close>

definition storybook_request :: "tool_args \<Rightarrow> request" where
  "storybook_request args = \<lparr>tool_name = ''generate_storybook_image'', arguments = Some args\<rparr>"

definition image_response :: "node \<Rightarrow> tool_args \<Rightarrow> response" where
  "image_response n args =
     generateContentStream n imageModel (imagePrompt (artStyle_of args) (arg_prompt args))"

definition image_requested :: "node \<Rightarrow> tool_args \<Rightarrow> world \<Rightarrow> world" where
  "image_requested n args w =
     w\<lparr>trace := trace w @ [GenRequest imageModel (imagePrompt (artStyle_of args) (arg_prompt args))]\<rparr>"

text \<open>The directory and the path of the retry in the \<open>catch\<close> block of the two save
  functions.\<close>

definition fallbackDir :: "node \<Rightarrow> string" where
  "fallbackDir n = path_join n [process_cwd n, ''output'']"

definition fallbackPath :: "node \<Rightarrow> string \<Rightarrow> string" where
  "fallbackPath n fileName = path_join n [fallbackDir n, fileName]"

text \<open>The trace of the second state extends that of the first.\<close>

definition grows :: "world \<Rightarrow> world \<Rightarrow> bool" where
  "grows w w' = (\<exists>evs. trace w' = trace w @ evs)"

text \<open>
  The directory the \<open>try\<close> block of the save functions resolves in a state; a state
  in which everything that existed still exists; the same host at another moment, with
  another reading of the clock and other answers from the provider.
\<close>

definition saveDir :: "node \<Rightarrow> world \<Rightarrow> string" where
  "saveDir n w =
     (if process_env n ''SAVE_TO_DESKTOP'' = Some ''true''
      then path_join n [getDesktopPath n w, ''storybook-images'']
      else path_join n [process_cwd n, ''storybook-images''])"

definition fs_le :: "world \<Rightarrow> world \<Rightarrow> bool" where
  "fs_le w w' = (\<forall>p. existsSync w p \<longrightarrow> existsSync w' p)"

definition host_later :: "node \<Rightarrow> string \<Rightarrow> (string \<Rightarrow> string \<Rightarrow> response) \<Rightarrow> node" where
  "host_later n t g = n\<lparr>date_now := t, generateContentStream := g\<rparr>"

text \<open>
  A property of path functions, in the words needed for file names: the end of a name
  that starts with an underscore and holds no separator is kept as the end of the path,
  and what precedes it in the path does not depend on it. Node's \<open>path.join\<close> and
  \<open>path.normalize\<close> have it, since such an end makes the last segment of the name an
  ordinary one, which normalisation leaves in place.
\<close>

definition no_separator :: "string \<Rightarrow> bool" where
  "no_separator s = (CHR ''/'' \<notin> set s \<and> CHR 0x5C \<notin> set s)"

definition plain_suffix :: "string \<Rightarrow> bool" where
  "plain_suffix z = (take 1 z = ''_'' \<and> CHR ''/'' \<notin> set z \<and> CHR 0x5C \<notin> set z)"

definition keeps_suffix :: "(string \<Rightarrow> string) \<Rightarrow> bool" where
  "keeps_suffix g = (\<exists>q. \<forall>y z. plain_suffix z \<longrightarrow> g (y @ z) = q y @ z)"

definition paths_keep_suffix :: "node \<Rightarrow> bool" where
  "paths_keep_suffix n =
     (\<forall>d. keeps_suffix (\<lambda>x. path_join n [d, x]) \<and>
          keeps_suffix (\<lambda>x. path_normalize n (path_join n [d, x])))"

section \<open>Concrete surroundings for the worked examples\<close>

text \<open>
  A POSIX-like instance of the path functions on plain segments: joining puts a slash
  between the segments, and the directory of a path is what precedes its last slash.
\<close>

fun slash_join :: "string list \<Rightarrow> string" where
  "slash_join [] = ''.''"
| "slash_join [a] = a"
| "slash_join (a # b # r) = a @ ''/'' @ slash_join (b # r)"

definition slash_dirname :: "string \<Rightarrow> string" where
  "slash_dirname p = rev (drop 1 (dropWhile (\<lambda>c. c \<noteq> CHR ''/'') (rev p)))"

definition text_chunk :: "string \<Rightarrow> chunk" where
  "text_chunk t = Chunk (Some [Candidate (Some (Content (Some [Part (Some t) None])))])"

definition image_chunk :: "string option \<Rightarrow> chunk" where
  "image_chunk d =
     Chunk (Some [Candidate (Some (Content (Some [Part None (Some (InlineData d))])))])"

definition two_part_chunk :: chunk where
  "two_part_chunk =
     Chunk (Some [Candidate (Some (Content (Some [Part (Some ''a'') None, Part (Some ''b'') None])))])"

text \<open>
  A Linux host without display, saving under the working directory; no file-system
  operation fails; the provider answers the story request with two text chunks and
  the image request with a text chunk followed by an image chunk.
\<close>

definition demo_provider :: "string \<Rightarrow> string \<Rightarrow> response" where
  "demo_provider model_name prompt_text =
     (if model_name = storyModel
      then Response [text_chunk ''Once'', text_chunk '' more''] None
      else Response [text_chunk ''x'', image_chunk (Some ''aGk='')] None)"

definition demo_node :: node where
  "demo_node =
     \<lparr>os_platform = Other, os_homedir = ''/h'', os_userInfo = Some ''u'',
      process_cwd = ''/srv'', process_env = Map.empty,
      path_join = slash_join, path_normalize = (\<lambda>p. p), path_dirname = slash_dirname,
      mkdir_error = (\<lambda>w p. None), write_error = (\<lambda>w p c. None),
      generateContentStream = demo_provider,
      date_now = ''2025-01-02T03:04:05.678Z''\<rparr>"

definition demo_world :: world where
  "demo_world = \<lparr>files = Map.empty, dirs = {''/srv'', ''/h''}, trace = []\<rparr>"

text \<open>The same host with a provider that sends nothing, and with one that fails.\<close>

definition silent_node :: node where
  "silent_node = demo_node\<lparr>generateContentStream := (\<lambda>m p. Response [] None)\<rparr>"

definition failing_node :: node where
  "failing_node =
     demo_node\<lparr>generateContentStream := (\<lambda>m p. Response [] (Some (JsError ''quota exceeded'')))\<rparr>"

text \<open>
  Hosts for the desktop policy: a Windows host whose profile has a desktop directory, a
  macOS host, a Linux host whose \<open>XDG_DESKTOP_DIR\<close> names a directory, one where it names
  a regular file, and a macOS host where the user lookup fails.
\<close>

definition windows_node :: node where
  "windows_node =
     demo_node\<lparr>os_platform := Win32, os_homedir := ''C:/Users/u'',
               process_env := [''USERPROFILE'' \<mapsto> ''C:/Users/u'']\<rparr>"

definition windows_world :: world where
  "windows_world = \<lparr>files = Map.empty, dirs = {''C:/Users/u'', ''C:/Users/u/Desktop''}, trace = []\<rparr>"

definition mac_node :: node where
  "mac_node = demo_node\<lparr>os_platform := Darwin\<rparr>"

definition xdg_node :: node where
  "xdg_node = demo_node\<lparr>process_env := [''XDG_DESKTOP_DIR'' \<mapsto> ''/h/Bureau'']\<rparr>"

definition xdg_world :: world where
  "xdg_world = \<lparr>files = Map.empty, dirs = {''/srv'', ''/h'', ''/h/Bureau'', ''/h/Desktop''}, trace = []\<rparr>"

definition xdg_file_node :: node where
  "xdg_file_node = demo_node\<lparr>process_env := [''XDG_DESKTOP_DIR'' \<mapsto> ''/etc/hostname'']\<rparr>"

definition xdg_file_world :: world where
  "xdg_file_world =
     \<lparr>files = [''/etc/hostname'' \<mapsto> Utf8 ''box''], dirs = {''/srv'', ''/h'', ''/h/Desktop''}, trace = []\<rparr>"

definition anonymous_mac_node :: node where
  "anonymous_mac_node = demo_node\<lparr>os_platform := Darwin, os_userInfo := None\<rparr>"

text \<open>
  An invocation, and hosts where writing fails: under \<open>storybook-images\<close> only,
  everywhere, and for files whose name ends in \<open>.png\<close>.
\<close>

definition demo_args :: tool_args where
  "demo_args =
     \<lparr>arg_prompt = Some (JStr ''a dragon''), arg_fileName = Some (JStr ''dragon1''),
      arg_artStyle = Some (JStr ''watercolor'')\<rparr>"

definition readonly_images_node :: node where
  "readonly_images_node =
     demo_node\<lparr>write_error := (\<lambda>w p c.
       if take 22 p = ''/srv/storybook-images/'' then Some (JsError ''EACCES: permission denied'')
       else None)\<rparr>"

definition readonly_node :: node where
  "readonly_node =
     demo_node\<lparr>write_error := (\<lambda>w p c. Some (JsError ''EROFS: read-only file system''))\<rparr>"

definition no_png_node :: node where
  "no_png_node =
     demo_node\<lparr>write_error := (\<lambda>w p c.
       if endsWith p ''.png'' then Some (JsError ''ENOSPC: no space left on device'') else None)\<rparr>"

text \<open>
  Providers whose image stream carries text only, and an image part without data; calls
  without a prompt, without a file name, with a style outside the declared set, and
  without a style; a second call for the same file name; two calls whose file name ends
  in \<open>.png\<close>; the host one moment later, with other answers from the provider.
\<close>

definition text_only_node :: node where
  "text_only_node =
     demo_node\<lparr>generateContentStream := (\<lambda>m p.
       if m = storyModel then Response [text_chunk ''Once'', text_chunk '' more''] None
       else Response [text_chunk ''I cannot draw that''] None)\<rparr>"

definition empty_payload_node :: node where
  "empty_payload_node =
     demo_node\<lparr>generateContentStream := (\<lambda>m p.
       if m = storyModel then Response [text_chunk ''Once'', text_chunk '' more''] None
       else Response [image_chunk None] None)\<rparr>"

definition no_prompt_args :: tool_args where
  "no_prompt_args =
     \<lparr>arg_prompt = None, arg_fileName = Some (JStr ''dragon1''), arg_artStyle = None\<rparr>"

definition no_fileName_args :: tool_args where
  "no_fileName_args =
     \<lparr>arg_prompt = Some (JStr ''a dragon''), arg_fileName = None, arg_artStyle = None\<rparr>"

definition oil_args :: tool_args where
  "oil_args =
     \<lparr>arg_prompt = Some (JStr ''a dragon''), arg_fileName = Some (JStr ''dragon1''),
      arg_artStyle = Some (JStr ''oil painting'')\<rparr>"

definition plain_args :: tool_args where
  "plain_args =
     \<lparr>arg_prompt = Some (JStr ''a dragon''), arg_fileName = Some (JStr ''dragon1''),
      arg_artStyle = None\<rparr>"

definition second_args :: tool_args where
  "second_args =
     \<lparr>arg_prompt = Some (JStr ''a knight''), arg_fileName = Some (JStr ''dragon1''),
      arg_artStyle = None\<rparr>"

definition png_args :: tool_args where
  "png_args =
     \<lparr>arg_prompt = Some (JStr ''a dragon''), arg_fileName = Some (JStr ''pic.png''),
      arg_artStyle = None\<rparr>"

definition second_png_args :: tool_args where
  "second_png_args =
     \<lparr>arg_prompt = Some (JStr ''a knight''), arg_fileName = Some (JStr ''pic.png''),
      arg_artStyle = None\<rparr>"

definition later_provider :: "string \<Rightarrow> string \<Rightarrow> response" where
  "later_provider model_name prompt_text =
     (if model_name = storyModel
      then Response [text_chunk ''Twice''] None
      else Response [image_chunk (Some ''eW8='')] None)"

definition later_node :: node where
  "later_node =
     demo_node\<lparr>generateContentStream := later_provider, date_now := ''2025-01-02T03:04:06.001Z''\<rparr>"

text \<open>Command lines and an environment for the bootstrap.\<close>

definition no_flags :: cli_args where
  "no_flags = \<lparr>passed_api_key = None, passed_save_to_desktop = False, passed_debug = False,
                passed_help = False\<rparr>"

definition key_flag :: cli_args where
  "key_flag = \<lparr>passed_api_key = Some ''cli-key'', passed_save_to_desktop = True,
                passed_debug = False, passed_help = False\<rparr>"

definition desktop_env :: "string \<Rightarrow> string option" where
  "desktop_env = [''SAVE_TO_DESKTOP'' \<mapsto> ''true'', ''DEBUG'' \<mapsto> ''true'',
                  ''GEMINI_API_KEY'' \<mapsto> ''env-key'']"

text \<open>
  The demonstration host at the very same clock reading with the later provider, and
  the demonstration host with desktop saving on.
\<close>

definition twin_node :: node where
  "twin_node = host_later demo_node (date_now demo_node) later_provider"

definition desktop_node :: node where
  "desktop_node = demo_node\<lparr>process_env := [''SAVE_TO_DESKTOP'' \<mapsto> ''true'']\<rparr>"

section \<open>Evaluation rules and the shape of the handler\<close>

lemma models_differ: "imageModel \<noteq> storyModel"
  by (simp add: imageModel_def storyModel_def)

lemma demo_provider_story [simp]:
  "demo_provider storyModel p = Response [text_chunk ''Once'', text_chunk '' more''] None"
  by (simp add: demo_provider_def)

lemma demo_provider_image [simp]:
  "demo_provider imageModel p = Response [text_chunk ''x'', image_chunk (Some ''aGk='')] None"
  by (simp add: demo_provider_def models_differ)

lemmas fs_defs = save_try_def save_catch_def saveImageWithProperPath_def
  saveStoryWithProperPath_def ensureDirectoryExists_def mkdirSync_def writeFileSync_def
  existsSync_def getDesktopPath_def Let_def


lemmas story_defs = generateStory_def story_response_def collect_story_def story_step_def
  story_of_def text_chunk_def

lemmas image_defs = image_response_def image_requested_def image_step_def image_chunk_def
  text_chunk_def data_or_empty_def

lemmas name_defs = storyFileName_def strip_extension_def outputFileName_def endsWith_def
  dash_colons_dots_def htmlFileName_def

lemma image_catch_is_McpError: "\<exists>m. image_catch e = McpError InternalError m"
  by (simp add: image_catch_def)

lemma outer_catch_is_McpError: "\<exists>m. outer_catch e = McpError InternalError m"
  by (cases e) (auto simp: outer_catch_def intro: error_code.exhaust)

lemma outer_catch_image_catch: "outer_catch (image_catch e) = image_catch e"
  by (simp add: outer_catch_def image_catch_def)

lemma handler_wellformed:
  assumes "arg_fileName args = Some (JStr f)"
  shows "handler n (storybook_request args) w =
     (case saveStoryWithProperPath n (fst (generateStory n (arg_prompt args) w)) (storyFileName f)
             (snd (generateStory n (arg_prompt args) w)) of
        (Inl e, w2) \<Rightarrow> (Inl (outer_catch e), w2)
      | (Inr sp, w2) \<Rightarrow>
          (case image_try n (arg_prompt args) (artStyle_of args) f
                  (fst (generateStory n (arg_prompt args) w)) sp w2 of
             (Inl e, w3) \<Rightarrow> (Inl (image_catch e), w3)
           | (Inr res, w3) \<Rightarrow> (Inr res, w3)))"
  using assms
  by (auto simp: handler_def tool_body_def storybook_request_def outer_catch_image_catch
           split: prod.splits sum.splits)

lemma image_try_unfold:
  "image_try n (arg_prompt args) (artStyle_of args) f story sp w =
     (case image_scan (resp_chunks (image_response n args)) (resp_failure (image_response n args)) of
        Inl e \<Rightarrow> (Inl e, image_requested n args w)
      | Inr d \<Rightarrow> emit_storybook n (arg_prompt args) f story sp d (image_requested n args w))"
  by (simp add: image_try_def image_response_def image_requested_def Let_def split: sum.splits)


lemma ensureDirectoryExists_files:
  "ensureDirectoryExists n d w = (res, w') \<Longrightarrow> files w' = files w"
  by (auto simp: ensureDirectoryExists_def mkdirSync_def split: if_splits option.splits)

lemma save_catch_trace:
  "trace (snd (save_catch n c fileName w)) =
     trace w @
     (if existsSync w (fallbackDir n) then [] else [Mkdir (fallbackDir n)]) @
     (if \<not> existsSync w (fallbackDir n) \<and> mkdir_error n w (fallbackDir n) \<noteq> None then []
      else [Write (fallbackPath n fileName) c])"
  by (auto simp: save_catch_def fallbackDir_def fallbackPath_def ensureDirectoryExists_def
                 mkdirSync_def writeFileSync_def Let_def
           split: option.splits)

lemma save_catch_Inr:
  "save_catch n c fileName w = (Inr p, w') \<Longrightarrow>
   p = fallbackPath n fileName \<and> files w' (fallbackPath n fileName) = Some c"
  by (auto simp: save_catch_def fallbackDir_def fallbackPath_def ensureDirectoryExists_def
                 mkdirSync_def writeFileSync_def Let_def
           split: option.splits if_splits)

lemma save_catch_Inl:
  "save_catch n c fileName w = (Inl e, w') \<Longrightarrow> files w' = files w"
  by (auto simp: save_catch_def fallbackDir_def fallbackPath_def ensureDirectoryExists_def
                 mkdirSync_def writeFileSync_def Let_def
           split: option.splits if_splits)

lemma emit_storybook_image_fails:
  "saveImageWithProperPath n (Buffer_from_base64 (data_or_empty d))
      (outputFileName f (date_now n)) w = (Inl e, w') \<Longrightarrow>
   emit_storybook n prompt f story sp d w = (Inl e, w')"
  by (simp add: emit_storybook_def data_or_empty_def Let_def)

section \<open>The trace only grows\<close>

lemma grows_refl: "grows w w"
  by (simp add: grows_def)

lemma grows_trans: "grows a b \<Longrightarrow> grows b c \<Longrightarrow> grows a c"
  by (auto simp: grows_def)

lemma grows_mem: "grows w w' \<Longrightarrow> ev \<in> set (trace w) \<Longrightarrow> ev \<in> set (trace w')"
  by (auto simp: grows_def)

lemma mkdirSync_grows: "mkdirSync n p w = (r, w') \<Longrightarrow> grows w w'"
  by (auto simp: mkdirSync_def grows_def split: option.splits)

lemma writeFileSync_grows: "writeFileSync n p c w = (r, w') \<Longrightarrow> grows w w'"
  by (auto simp: writeFileSync_def grows_def split: option.splits)

lemma ensureDirectoryExists_grows: "ensureDirectoryExists n p w = (r, w') \<Longrightarrow> grows w w'"
  by (auto simp: ensureDirectoryExists_def grows_refl split: if_splits dest: mkdirSync_grows)

lemma save_try_grows: "save_try n c f w = (r, w') \<Longrightarrow> grows w w'"
  by (auto simp: save_try_def Let_def split: prod.splits sum.splits if_splits
           dest!: ensureDirectoryExists_grows writeFileSync_grows intro: grows_trans)

lemma save_catch_grows: "save_catch n c f w = (r, w') \<Longrightarrow> grows w w'"
  by (auto simp: save_catch_def Let_def split: prod.splits sum.splits
           dest!: ensureDirectoryExists_grows writeFileSync_grows intro: grows_trans)

lemma saveImage_grows: "saveImageWithProperPath n b f w = (r, w') \<Longrightarrow> grows w w'"
  by (auto simp: saveImageWithProperPath_def split: prod.splits sum.splits
           dest!: save_try_grows save_catch_grows intro: grows_trans)

lemma saveStory_grows: "saveStoryWithProperPath n s f w = (r, w') \<Longrightarrow> grows w w'"
  by (auto simp: saveStoryWithProperPath_def split: prod.splits sum.splits
           dest!: save_try_grows save_catch_grows intro: grows_trans)

lemma openInBrowser_grows: "grows w (openInBrowser n p w)"
  by (simp add: openInBrowser_def grows_def Let_def)

lemma emit_storybook_grows:
  assumes "emit_storybook n prompt f story sp d w = (r, w')"
  shows "grows w w'"
proof -
  obtain r1 w1 where s: "saveImageWithProperPath n (Buffer_from_base64 (data_or_empty d))
                           (outputFileName f (date_now n)) w = (r1, w1)"
    by fastforce
  then have g1: "grows w w1" by (rule saveImage_grows)
  show ?thesis
  proof (cases r1)
    case (Inl e)
    with assms s have "w' = w1" by (simp add: emit_storybook_def Let_def)
    with g1 show ?thesis by simp
  next
    case (Inr ip)
    let ?hp = "path_join n [path_dirname n ip, htmlFileName (outputFileName f (date_now n))]"
    obtain r2 w2 where e: "ensureDirectoryExists n (path_dirname n ?hp) w1 = (r2, w2)"
      by fastforce
    then have g2: "grows w w2" using g1 by (blast intro: grows_trans ensureDirectoryExists_grows)
    show ?thesis
    proof (cases r2)
      case (Inl e2)
      with assms s Inr e have "w' = w2" by (simp add: emit_storybook_def Let_def)
      with g2 show ?thesis by simp
    next
      case (Inr u)
      obtain r3 w3 where h: "writeFileSync n ?hp (Utf8 (htmlContent prompt ip story sp)) w2 = (r3, w3)"
        by fastforce
      then have g3: "grows w w3" using g2 by (blast intro: grows_trans writeFileSync_grows)
      show ?thesis
      proof (cases r3)
        case (Inl e3)
        with assms s \<open>r1 = Inr ip\<close> e Inr h have "w' = w3"
          by (simp add: emit_storybook_def Let_def)
        with g3 show ?thesis by simp
      next
        case (Inr u3)
        with assms s \<open>r1 = Inr ip\<close> e \<open>r2 = Inr u\<close> h have "w' = openInBrowser n ?hp w3"
          by (simp add: emit_storybook_def Let_def)
        with g3 show ?thesis by (blast intro: grows_trans openInBrowser_grows)
      qed
    qed
  qed
qed

lemma generateStory_fst:
  "fst (generateStory n p w) = story_of (collect_story (story_response n p))"
  by (simp add: generateStory_def)

lemma generateStory_grows: "grows w (snd (generateStory n p w))"
  by (simp add: generateStory_def grows_def)

section \<open>Story generation: what is collected, and the fallbacks\<close>

lemma story_step_clean:
  "\<not> empty_array_read ch \<Longrightarrow> story_step ch acc = Inr (acc @ first_text ch)"
  by (auto simp: story_step_def empty_array_read_def first_text_def
           split: option.splits list.splits)

lemma story_loop_clean:
  "\<forall>ch\<in>set chs. \<not> empty_array_read ch \<Longrightarrow>
   story_loop chs failure acc =
     (case failure of None \<Rightarrow> Inr (acc @ concat (map first_text chs)) | Some e \<Rightarrow> Inl e)"
proof (induction chs arbitrary: acc)
  case Nil
  then show ?case by (simp split: option.splits)
next
  case (Cons ch chs)
  then show ?case by (simp add: story_step_clean split: option.splits)
qed

lemma single_part_fragments:
  "single_part ch \<Longrightarrow> \<not> empty_array_read ch \<Longrightarrow>
   concat (List.map_filter part_text (chunk_parts ch)) = first_text ch"
  by (auto simp: single_part_def empty_array_read_def first_text_def chunk_parts_def
                 candidate_parts_def List.map_filter_simps
           split: option.splits list.splits)

lemma all_text_fragments_Cons:
  "all_text_fragments (ch # chs) =
     List.map_filter part_text (chunk_parts ch) @ all_text_fragments chs"
  by (simp add: all_text_fragments_def List.map_filter_def)

lemma single_part_concat:
  "\<forall>ch\<in>set chs. single_part ch \<and> \<not> empty_array_read ch \<Longrightarrow>
   concat (all_text_fragments chs) = concat (map first_text chs)"
proof (induction chs)
  case Nil
  then show ?case by (simp add: all_text_fragments_def List.map_filter_simps)
next
  case (Cons ch chs)
  then show ?case by (simp add: all_text_fragments_Cons single_part_fragments)
qed

lemma first_text_fragment:
  "first_text ch \<noteq> [] \<Longrightarrow> List.map_filter part_text (chunk_parts ch) \<noteq> []"
  by (auto simp: first_text_def chunk_parts_def candidate_parts_def List.map_filter_simps
           split: option.splits list.splits)

lemma no_fragments_first_text:
  "all_text_fragments chs = [] \<Longrightarrow> ch \<in> set chs \<Longrightarrow> first_text ch = []"
proof (induction chs)
  case Nil
  then show ?case by simp
next
  case (Cons a chs)
  then show ?case
    using first_text_fragment [of a] by (auto simp: all_text_fragments_Cons)
qed

lemma no_fragments_concat:
  "all_text_fragments chs = [] \<Longrightarrow> concat (map first_text chs) = []"
  by (simp add: no_fragments_first_text)

lemma story_of_nonempty: "story_of c \<noteq> []"
  by (cases c) (simp_all add: story_of_def story_fallback_def)

text \<open>
  C9, as amended. For a story stream that ends normally and has no chunk with an empty
  \<open>candidates\<close> array or an empty \<open>parts\<close> array in its first candidate, the text
  collected before the fallback check is the concatenation, in stream order, of the
  text of the first part of the first candidate of each chunk. It is the concatenation
  of all textual fragments of the stream when every chunk has at most one candidate
  and at most one part.
\<close>

theorem collect_story_first_parts:
  assumes "resp_failure r = None"
      and "\<forall>ch\<in>set (resp_chunks r). \<not> empty_array_read ch"
  shows "collect_story r = Inr (concat (map first_text (resp_chunks r))) \<and>
         ((\<forall>ch\<in>set (resp_chunks r). single_part ch) \<longrightarrow>
            collect_story r = Inr (concat (all_text_fragments (resp_chunks r))))"
proof -
  have a: "collect_story r = Inr (concat (map first_text (resp_chunks r)))"
    using assms by (simp add: collect_story_def story_loop_clean)
  moreover have "collect_story r = Inr (concat (all_text_fragments (resp_chunks r)))"
    if "\<forall>ch\<in>set (resp_chunks r). single_part ch"
    using that assms(2) a by (simp add: single_part_concat)
  ultimately show ?thesis by blast
qed

text \<open>The story stream of the worked example: both statements of the theorem apply.\<close>

theorem collect_story_first_parts_witness:
  "resp_failure (story_response demo_node None) = None \<and>
   list_all (\<lambda>ch. \<not> empty_array_read ch \<and> single_part ch)
     (resp_chunks (story_response demo_node None)) \<and>
   collect_story (story_response demo_node None) = Inr ''Once more'' \<and>
   concat (all_text_fragments (resp_chunks (story_response demo_node None))) = ''Once more''"
proof -
  let ?r = "story_response demo_node None"
  have r: "?r = Response [text_chunk ''Once'', text_chunk '' more''] None"
    by (simp add: story_response_def demo_node_def demo_provider_def)
  have h1: "resp_failure ?r = None"
    by (simp add: r)
  have h2: "\<forall>ch\<in>set (resp_chunks ?r). \<not> empty_array_read ch"
    by (simp add: r text_chunk_def empty_array_read_def)
  have h3: "\<forall>ch\<in>set (resp_chunks ?r). single_part ch"
    by (simp add: r text_chunk_def single_part_def chunk_parts_def candidate_parts_def)
  have t: "concat (map first_text (resp_chunks ?r)) = ''Once more''"
    by (simp add: r text_chunk_def first_text_def)
  from collect_story_first_parts [OF h1 h2] t
  have c: "collect_story ?r = Inr ''Once more''"
    by simp
  from collect_story_first_parts [OF h1 h2] h3
  have "collect_story ?r = Inr (concat (all_text_fragments (resp_chunks ?r)))"
    by blast
  with c have d: "concat (all_text_fragments (resp_chunks ?r)) = ''Once more''"
    by simp
  from h1 h2 h3 c d show ?thesis by (simp add: list_all_iff)
qed

text \<open>
  C9 as stated fails: of a chunk whose first candidate has two text parts, only the
  first is collected.
\<close>

theorem collect_story_all_fragments_counterexample:
  "collect_story (Response [two_part_chunk] None) = Inr ''a'' \<and>
   concat (all_text_fragments [two_part_chunk]) = ''ab''"
  by (simp add: collect_story_def story_step_def two_part_chunk_def all_text_fragments_def
                chunk_parts_def candidate_parts_def List.map_filter_simps)

text \<open>
  C4. \<open>generateStory\<close> returns a string for every prompt and every story stream: each
  error of its \<open>try\<close> block is turned into text by its \<open>catch\<close> block, so it has no
  throwing outcome. The string is never empty. When no text was collected, and in
  particular when the stream ends normally without any textual fragment, it is the
  fixed fallback narrative; when an error occurred, and in particular when the stream
  fails, it is the fallback that embeds the error's message.
\<close>

theorem generateStory_fallbacks:
  "fst (generateStory n prompt w) \<noteq> [] \<and>
   (collect_story (story_response n prompt) = Inr [] \<longrightarrow>
      fst (generateStory n prompt w) = story_fallback) \<and>
   (resp_failure (story_response n prompt) = None \<and>
    all_text_fragments (resp_chunks (story_response n prompt)) = [] \<and>
    (\<forall>ch\<in>set (resp_chunks (story_response n prompt)). \<not> empty_array_read ch) \<longrightarrow>
      fst (generateStory n prompt w) = story_fallback) \<and>
   (\<forall>e. collect_story (story_response n prompt) = Inl e \<longrightarrow>
      fst (generateStory n prompt w) =
        ''Once upon a time... (Story generation failed: '' @ message_or_String e @ '')'') \<and>
   (\<forall>e. resp_failure (story_response n prompt) = Some e \<and>
        (\<forall>ch\<in>set (resp_chunks (story_response n prompt)). \<not> empty_array_read ch) \<longrightarrow>
      fst (generateStory n prompt w) =
        ''Once upon a time... (Story generation failed: '' @ message_or_String e @ '')'')"
proof -
  let ?r = "story_response n prompt"
  have g: "fst (generateStory n prompt w) = story_of (collect_story ?r)"
    by (simp add: generateStory_def)
  have 1: "fst (generateStory n prompt w) \<noteq> []"
    by (simp add: g story_of_nonempty)
  have 2: "fst (generateStory n prompt w) = story_fallback" if "collect_story ?r = Inr []"
    using that by (simp add: g story_of_def)
  have 3: "fst (generateStory n prompt w) = story_fallback"
    if "resp_failure ?r = None" "all_text_fragments (resp_chunks ?r) = []"
       "\<forall>ch\<in>set (resp_chunks ?r). \<not> empty_array_read ch"
  proof -
    have "collect_story ?r = Inr []"
      using that by (simp add: collect_story_def story_loop_clean no_fragments_concat)
    then show ?thesis by (rule 2)
  qed
  have 4: "fst (generateStory n prompt w) =
             ''Once upon a time... (Story generation failed: '' @ message_or_String e @ '')''"
    if "collect_story ?r = Inl e" for e
    using that by (simp add: g story_of_def)
  have 5: "fst (generateStory n prompt w) =
             ''Once upon a time... (Story generation failed: '' @ message_or_String e @ '')''"
    if "resp_failure ?r = Some e" "\<forall>ch\<in>set (resp_chunks ?r). \<not> empty_array_read ch" for e
  proof -
    have "collect_story ?r = Inl e"
      using that by (simp add: collect_story_def story_loop_clean)
    then show ?thesis by (rule 4)
  qed
  from 1 2 3 4 5 show ?thesis by blast
qed

text \<open>A provider that sends nothing, and one whose request fails.\<close>

theorem generateStory_fallbacks_witness:
  "resp_failure (story_response silent_node None) = None \<and>
   all_text_fragments (resp_chunks (story_response silent_node None)) = [] \<and>
   fst (generateStory silent_node None demo_world) = story_fallback \<and>
   resp_failure (story_response failing_node None) = Some (JsError ''quota exceeded'') \<and>
   fst (generateStory failing_node None demo_world) =
     ''Once upon a time... (Story generation failed: quota exceeded)''"
proof -
  have s: "story_response silent_node None = Response [] None"
    by (simp add: story_response_def silent_node_def)
  have f: "story_response failing_node None = Response [] (Some (JsError ''quota exceeded''))"
    by (simp add: story_response_def failing_node_def)
  have a: "resp_failure (story_response silent_node None) = None \<and>
           all_text_fragments (resp_chunks (story_response silent_node None)) = [] \<and>
           (\<forall>ch\<in>set (resp_chunks (story_response silent_node None)). \<not> empty_array_read ch)"
    by (simp add: s all_text_fragments_def List.map_filter_simps)
  have b: "resp_failure (story_response failing_node None) = Some (JsError ''quota exceeded'') \<and>
           (\<forall>ch\<in>set (resp_chunks (story_response failing_node None)). \<not> empty_array_read ch)"
    by (simp add: f)
  from generateStory_fallbacks [of silent_node None demo_world] a
  have c: "fst (generateStory silent_node None demo_world) = story_fallback"
    by blast
  from generateStory_fallbacks [of failing_node None demo_world] b
  have d: "fst (generateStory failing_node None demo_world) =
             ''Once upon a time... (Story generation failed: '' @
             message_or_String (JsError ''quota exceeded'') @ '')''"
    by blast
  from a b c d show ?thesis by simp
qed

section \<open>The desktop directory\<close>

text \<open>
  C6, as amended. When the user lookup fails, the home directory is returned on every
  platform. Otherwise: on Windows, \<open>USERPROFILE\<close> joined with \<open>Desktop\<close> when the variable is
  set and not empty, else the path built from \<open>C:\<close>, \<open>Users\<close>, the user name and \<open>Desktop\<close>,
  and the home directory when that path does not exist; on macOS, \<open>Desktop\<close> under the
  home directory, without an existence check; on other systems, \<open>XDG_DESKTOP_DIR\<close> when
  it is set, not empty and names an existing entry of the file system (a directory or
  a file), else \<open>Desktop\<close> under the home directory if it exists, else the home
  directory.
\<close>

theorem getDesktopPath_policy:
  "(os_userInfo n = None \<longrightarrow> getDesktopPath n w = os_homedir n) \<and>
   (os_userInfo n = Some u \<and> os_platform n = Win32 \<longrightarrow>
      (\<forall>up. process_env n ''USERPROFILE'' = Some up \<and> up \<noteq> [] \<longrightarrow>
         getDesktopPath n w =
           (if existsSync w (path_join n [up, ''Desktop''])
            then path_join n [up, ''Desktop''] else os_homedir n)) \<and>
      (process_env n ''USERPROFILE'' = None \<or> process_env n ''USERPROFILE'' = Some [] \<longrightarrow>
         getDesktopPath n w =
           (if existsSync w (path_join n [''C:'', ''Users'', u, ''Desktop''])
            then path_join n [''C:'', ''Users'', u, ''Desktop''] else os_homedir n))) \<and>
   (os_userInfo n = Some u \<and> os_platform n = Darwin \<longrightarrow>
      getDesktopPath n w = path_join n [os_homedir n, ''Desktop'']) \<and>
   (os_userInfo n = Some u \<and> os_platform n = Other \<longrightarrow>
      (\<forall>xdg. process_env n ''XDG_DESKTOP_DIR'' = Some xdg \<and> xdg \<noteq> [] \<and> existsSync w xdg \<longrightarrow>
         getDesktopPath n w = xdg) \<and>
      (\<not> (\<exists>xdg. process_env n ''XDG_DESKTOP_DIR'' = Some xdg \<and> xdg \<noteq> [] \<and> existsSync w xdg) \<longrightarrow>
         getDesktopPath n w =
           (if existsSync w (path_join n [os_homedir n, ''Desktop''])
            then path_join n [os_homedir n, ''Desktop''] else os_homedir n)))"
  by (auto simp: getDesktopPath_def Let_def split: option.splits platform.splits)

text \<open>One host for each platform, and the host without a user entry.\<close>

theorem getDesktopPath_policy_witness:
  "getDesktopPath windows_node windows_world = ''C:/Users/u/Desktop'' \<and>
   getDesktopPath mac_node demo_world = ''/h/Desktop'' \<and>
   existsSync xdg_world ''/h/Bureau'' \<and>
   getDesktopPath xdg_node xdg_world = ''/h/Bureau'' \<and>
   getDesktopPath anonymous_mac_node demo_world = ''/h''"
proof -
  have w1: "os_userInfo windows_node = Some ''u'' \<and> os_platform windows_node = Win32 \<and>
            process_env windows_node ''USERPROFILE'' = Some ''C:/Users/u'' \<and>
            path_join windows_node [''C:/Users/u'', ''Desktop''] = ''C:/Users/u/Desktop'' \<and>
            existsSync windows_world ''C:/Users/u/Desktop''"
    by (simp add: windows_node_def demo_node_def windows_world_def existsSync_def)
  from getDesktopPath_policy [of windows_node windows_world "''u''"] w1
  have a: "getDesktopPath windows_node windows_world = ''C:/Users/u/Desktop''"
    by simp
  have m1: "os_userInfo mac_node = Some ''u'' \<and> os_platform mac_node = Darwin \<and>
            path_join mac_node [os_homedir mac_node, ''Desktop''] = ''/h/Desktop''"
    by (simp add: mac_node_def demo_node_def)
  from getDesktopPath_policy [of mac_node demo_world "''u''"] m1
  have b: "getDesktopPath mac_node demo_world = ''/h/Desktop''"
    by simp
  have x1: "os_userInfo xdg_node = Some ''u'' \<and> os_platform xdg_node = Other \<and>
            process_env xdg_node ''XDG_DESKTOP_DIR'' = Some ''/h/Bureau'' \<and>
            existsSync xdg_world ''/h/Bureau''"
    by (simp add: xdg_node_def demo_node_def xdg_world_def existsSync_def)
  from getDesktopPath_policy [of xdg_node xdg_world "''u''"] x1
  have c: "getDesktopPath xdg_node xdg_world = ''/h/Bureau''"
    by simp
  have n1: "os_userInfo anonymous_mac_node = None \<and> os_homedir anonymous_mac_node = ''/h''"
    by (simp add: anonymous_mac_node_def demo_node_def)
  from getDesktopPath_policy [of anonymous_mac_node demo_world] n1
  have d: "getDesktopPath anonymous_mac_node demo_world = ''/h''"
    by simp
  from a b c d x1 show ?thesis by simp
qed

text \<open>
  C6 as stated fails. On Linux, \<open>XDG_DESKTOP_DIR\<close> naming a regular file is returned,
  although it is not a directory and \<open>Desktop\<close> exists under the home directory. On
  macOS, the home directory is returned, not its \<open>Desktop\<close>, when the user lookup throws.
\<close>

theorem getDesktopPath_xdg_file_counterexample:
  "os_platform xdg_file_node = Other \<and>
   process_env xdg_file_node ''XDG_DESKTOP_DIR'' = Some ''/etc/hostname'' \<and>
   ''/etc/hostname'' \<notin> dirs xdg_file_world \<and>
   existsSync xdg_file_world (path_join xdg_file_node [os_homedir xdg_file_node, ''Desktop'']) \<and>
   getDesktopPath xdg_file_node xdg_file_world = ''/etc/hostname'' \<and>
   getDesktopPath xdg_file_node xdg_file_world \<noteq>
     path_join xdg_file_node [os_homedir xdg_file_node, ''Desktop''] \<and>
   os_platform anonymous_mac_node = Darwin \<and>
   getDesktopPath anonymous_mac_node demo_world = ''/h'' \<and>
   path_join anonymous_mac_node [os_homedir anonymous_mac_node, ''Desktop''] = ''/h/Desktop''"
  by (simp add: getDesktopPath_def xdg_file_node_def xdg_file_world_def demo_node_def
                anonymous_mac_node_def existsSync_def)

section \<open>Saving with one retry\<close>

text \<open>
  C5. When the \<open>try\<close> block of a save function fails, whatever the error, payload and
  file name, the function's outcome is that of its \<open>catch\<close> block, run once on the state
  the failed attempt left: it creates the directory \<open>output\<close> under the working directory
  if needed and makes one write attempt, to the file name joined to that directory. A
  successful retry returns that path and the file holds the payload; a failed retry is
  the function's own failure, with no file changed, and there is no further attempt.
  A save function that fails makes the invocation fail: for the story through the outer
  \<open>catch\<close>, for the image through the inner one.
\<close>

theorem save_retries_once:
  "(save_try n c fileName w = (Inl e, wa) \<longrightarrow>
      (\<forall>buffer. c = Binary buffer \<longrightarrow>
         saveImageWithProperPath n buffer fileName w = save_catch n c fileName wa) \<and>
      (\<forall>story. c = Utf8 story \<longrightarrow>
         saveStoryWithProperPath n story fileName w = save_catch n c fileName wa) \<and>
      trace (snd (save_catch n c fileName wa)) =
        trace wa @
        (if existsSync wa (fallbackDir n) then [] else [Mkdir (fallbackDir n)]) @
        (if \<not> existsSync wa (fallbackDir n) \<and> mkdir_error n wa (fallbackDir n) \<noteq> None then []
         else [Write (fallbackPath n fileName) c]) \<and>
      (\<forall>p wb. save_catch n c fileName wa = (Inr p, wb) \<longrightarrow>
         p = fallbackPath n fileName \<and> files wb (fallbackPath n fileName) = Some c) \<and>
      (\<forall>e' wb. save_catch n c fileName wa = (Inl e', wb) \<longrightarrow> files wb = files wa)) \<and>
   (arg_fileName args = Some (JStr f) \<and>
    saveStoryWithProperPath n (fst (generateStory n (arg_prompt args) w)) (storyFileName f)
        (snd (generateStory n (arg_prompt args) w)) = (Inl e, wa) \<longrightarrow>
      handler n (storybook_request args) w = (Inl (outer_catch e), wa)) \<and>
   (arg_fileName args = Some (JStr f) \<and>
    saveStoryWithProperPath n (fst (generateStory n (arg_prompt args) w)) (storyFileName f)
        (snd (generateStory n (arg_prompt args) w)) = (Inr sp, wb) \<and>
    image_scan (resp_chunks (image_response n args)) (resp_failure (image_response n args)) = Inr d \<and>
    saveImageWithProperPath n (Buffer_from_base64 (data_or_empty d))
        (outputFileName f (date_now n)) (image_requested n args wb) = (Inl e, wc) \<longrightarrow>
      handler n (storybook_request args) w = (Inl (image_catch e), wc))"
proof -
  have a: "saveImageWithProperPath n buffer fileName w = save_catch n c fileName wa"
    if "save_try n c fileName w = (Inl e, wa)" "c = Binary buffer" for buffer
    using that by (simp add: saveImageWithProperPath_def)
  have b: "saveStoryWithProperPath n story fileName w = save_catch n c fileName wa"
    if "save_try n c fileName w = (Inl e, wa)" "c = Utf8 story" for story
    using that by (simp add: saveStoryWithProperPath_def)
  have s: "handler n (storybook_request args) w = (Inl (outer_catch e), wa)"
    if "arg_fileName args = Some (JStr f)"
       "saveStoryWithProperPath n (fst (generateStory n (arg_prompt args) w)) (storyFileName f)
          (snd (generateStory n (arg_prompt args) w)) = (Inl e, wa)"
    using that by (simp add: handler_wellformed)
  have i: "handler n (storybook_request args) w = (Inl (image_catch e), wc)"
    if "arg_fileName args = Some (JStr f)"
       "saveStoryWithProperPath n (fst (generateStory n (arg_prompt args) w)) (storyFileName f)
          (snd (generateStory n (arg_prompt args) w)) = (Inr sp, wb)"
       "image_scan (resp_chunks (image_response n args)) (resp_failure (image_response n args)) = Inr d"
       "saveImageWithProperPath n (Buffer_from_base64 (data_or_empty d))
          (outputFileName f (date_now n)) (image_requested n args wb) = (Inl e, wc)"
    using that by (simp add: handler_wellformed image_try_unfold emit_storybook_image_fails)
  from a b s i save_catch_trace [of n c fileName wa] save_catch_Inr [of n c fileName wa]
    save_catch_Inl [of n c fileName wa]
  show ?thesis by blast
qed

text \<open>
  A host where only \<open>storybook-images\<close> is read-only: the story lands in \<open>output\<close>. A
  read-only host: the story cannot be saved and the invocation fails. A host that
  refuses \<open>.png\<close> files: both attempts for the image fail and the invocation fails.
\<close>

theorem save_retries_once_witness:
  "fst (save_try readonly_images_node (Utf8 ''s'') ''t_story.txt'' demo_world) =
     Inl (JsError ''EACCES: permission denied'') \<and>
   fst (saveStoryWithProperPath readonly_images_node ''s'' ''t_story.txt'' demo_world) =
     Inr ''/srv/output/t_story.txt'' \<and>
   fst (saveStoryWithProperPath readonly_node
          (fst (generateStory readonly_node (arg_prompt demo_args) demo_world))
          (storyFileName ''dragon1'')
          (snd (generateStory readonly_node (arg_prompt demo_args) demo_world))) =
     Inl (JsError ''EROFS: read-only file system'') \<and>
   fst (handler readonly_node (storybook_request demo_args) demo_world) =
     Inl (McpError InternalError ''Error processing request: EROFS: read-only file system'') \<and>
   fst (handler no_png_node (storybook_request demo_args) demo_world) =
     Inl (McpError InternalError ''Failed to generate image: ENOSPC: no space left on device'')"
proof -
  let ?n1 = readonly_images_node
  let ?t1 = "save_try ?n1 (Utf8 ''s'') ''t_story.txt'' demo_world"
  have a1: "fst ?t1 = Inl (JsError ''EACCES: permission denied'')"
    by (simp add: fs_defs readonly_images_node_def demo_node_def demo_world_def)
  then have a2: "?t1 = (Inl (JsError ''EACCES: permission denied''), snd ?t1)"
    by (simp add: prod_eq_iff)
  have a3: "fst (save_catch ?n1 (Utf8 ''s'') ''t_story.txt'' (snd ?t1)) = Inr ''/srv/output/t_story.txt''"
    by (simp add: fs_defs readonly_images_node_def demo_node_def demo_world_def)
  from save_retries_once [where n = ?n1 and c = "Utf8 ''s''" and fileName = "''t_story.txt''"
      and w = demo_world and e = "JsError ''EACCES: permission denied''" and wa = "snd ?t1"] a2
  have "saveStoryWithProperPath ?n1 ''s'' ''t_story.txt'' demo_world =
          save_catch ?n1 (Utf8 ''s'') ''t_story.txt'' (snd ?t1)"
    by blast
  with a3 have a4: "fst (saveStoryWithProperPath ?n1 ''s'' ''t_story.txt'' demo_world) =
                      Inr ''/srv/output/t_story.txt''"
    by simp
  let ?n2 = readonly_node
  let ?s2 = "saveStoryWithProperPath ?n2
               (fst (generateStory ?n2 (arg_prompt demo_args) demo_world))
               (storyFileName ''dragon1'')
               (snd (generateStory ?n2 (arg_prompt demo_args) demo_world))"
  have b1: "fst ?s2 = Inl (JsError ''EROFS: read-only file system'')"
    by (simp add: fs_defs generateStory_def readonly_node_def demo_node_def demo_world_def)
  then have b2: "?s2 = (Inl (JsError ''EROFS: read-only file system''), snd ?s2)"
    by (simp add: prod_eq_iff)
  have b3: "arg_fileName demo_args = Some (JStr ''dragon1'')"
    by (simp add: demo_args_def)
  from save_retries_once [where n = ?n2 and w = demo_world and args = demo_args
      and f = "''dragon1''" and e = "JsError ''EROFS: read-only file system''" and wa = "snd ?s2"]
    b2 b3
  have "handler ?n2 (storybook_request demo_args) demo_world =
          (Inl (outer_catch (JsError ''EROFS: read-only file system'')), snd ?s2)"
    by blast
  then have b4: "fst (handler ?n2 (storybook_request demo_args) demo_world) =
                   Inl (McpError InternalError ''Error processing request: EROFS: read-only file system'')"
    by (simp add: outer_catch_def)
  let ?n3 = no_png_node
  let ?s3 = "saveStoryWithProperPath ?n3
               (fst (generateStory ?n3 (arg_prompt demo_args) demo_world))
               (storyFileName ''dragon1'')
               (snd (generateStory ?n3 (arg_prompt demo_args) demo_world))"
  let ?d = "InlineData (Some ''aGk='')"
  let ?i3 = "saveImageWithProperPath ?n3 (Buffer_from_base64 (data_or_empty ?d))
               (outputFileName ''dragon1'' (date_now ?n3))
               (image_requested ?n3 demo_args (snd ?s3))"
  have c1: "fst ?s3 = Inr ''/srv/storybook-images/dragon1_story.txt''"
    by (simp add: fs_defs name_defs generateStory_def no_png_node_def demo_node_def
                  demo_world_def)
  then have c2: "?s3 = (Inr ''/srv/storybook-images/dragon1_story.txt'', snd ?s3)"
    by (simp add: prod_eq_iff)
  have c3: "image_scan (resp_chunks (image_response ?n3 demo_args))
              (resp_failure (image_response ?n3 demo_args)) = Inr ?d"
    by (simp add: image_defs no_png_node_def demo_node_def)
  have c4: "fst ?i3 = Inl (JsError ''ENOSPC: no space left on device'')"
    by (simp add: fs_defs name_defs image_defs generateStory_def demo_args_def
                  no_png_node_def demo_node_def demo_world_def)
  then have c5: "?i3 = (Inl (JsError ''ENOSPC: no space left on device''), snd ?i3)"
    by (simp add: prod_eq_iff)
  from save_retries_once [where n = ?n3 and w = demo_world and args = demo_args
      and f = "''dragon1''" and e = "JsError ''ENOSPC: no space left on device''"
      and sp = "''/srv/storybook-images/dragon1_story.txt''" and wb = "snd ?s3"
      and d = ?d and wc = "snd ?i3"]
    b3 c2 c3 c5
  have "handler ?n3 (storybook_request demo_args) demo_world =
          (Inl (image_catch (JsError ''ENOSPC: no space left on device'')), snd ?i3)"
    by blast
  then have c6: "fst (handler ?n3 (storybook_request demo_args) demo_world) =
                   Inl (McpError InternalError
                          ''Failed to generate image: ENOSPC: no space left on device'')"
    by (simp add: image_catch_def)
  from a1 a4 b1 b4 c6 show ?thesis by simp
qed

section \<open>The handler: scanning the image stream, and runs without file-system errors\<close>

lemma image_step_no_inline:
  "chunk_inline_payloads ch = [] \<Longrightarrow>
   image_step ch = (if empty_array_read ch
                    then Throws (JsError (if chunk_candidates ch = Some []
                           then ''Cannot read properties of undefined (reading 'content')''
                           else ''Cannot read properties of undefined (reading 'inlineData')''))
                    else Skip)"
  by (auto simp: chunk_inline_payloads_def chunk_parts_def candidate_parts_def image_step_def
                 empty_array_read_def List.map_filter_simps
           split: option.splits list.splits)

lemma image_scan_no_inline:
  "\<forall>ch\<in>set chs. chunk_inline_payloads ch = [] \<Longrightarrow>
   \<exists>e. image_scan chs None = Inl e \<and> instanceof_Error e"
proof (induction chs)
  case Nil
  then show ?case by simp
next
  case (Cons ch chs)
  then show ?case by (auto simp: image_step_no_inline)
qed

lemma image_scan_clean:
  "\<forall>ch\<in>set chs. chunk_inline_payloads ch = [] \<and> \<not> empty_array_read ch \<Longrightarrow>
   image_scan chs None = Inl (McpError InternalError ''No image data received from the API'')"
  by (induction chs) (auto simp: image_step_no_inline)

lemma writeFileSync_Inr:
  "writeFileSync n p c w = (Inr u, w') \<Longrightarrow> files w' p = Some c"
  by (auto simp: writeFileSync_def split: option.splits)

lemma save_try_Inr:
  "save_try n c f w = (Inr p, w') \<Longrightarrow> files w' p = Some c"
  by (auto simp: save_try_def Let_def split: prod.splits sum.splits if_splits
           dest: writeFileSync_Inr)

lemma saveStory_Inr:
  "saveStoryWithProperPath n s f w = (Inr p, w') \<Longrightarrow> files w' p = Some (Utf8 s)"
  by (auto simp: saveStoryWithProperPath_def split: prod.splits sum.splits
           dest: save_try_Inr save_catch_Inr)

lemma saveImage_Inr:
  "saveImageWithProperPath n b f w = (Inr p, w') \<Longrightarrow> files w' p = Some (Binary b)"
  by (auto simp: saveImageWithProperPath_def split: prod.splits sum.splits
           dest: save_try_Inr save_catch_Inr)

lemma Buffer_from_base64_empty: "Buffer_from_base64 [] = []"
  by (simp add: Buffer_from_base64_def List.map_filter_simps)

lemma ensureDirectoryExists_no_errors:
  assumes "\<forall>w p. mkdir_error n w p = None"
  shows "\<exists>w'. ensureDirectoryExists n p w = (Inr (), w')"
  using assms by (simp add: ensureDirectoryExists_def mkdirSync_def)

lemma writeFileSync_no_errors:
  assumes "\<forall>w p c. write_error n w p c = None"
  shows "\<exists>w'. writeFileSync n p c w = (Inr (), w') \<and> Write p c \<in> set (trace w')"
  using assms by (simp add: writeFileSync_def)

lemma save_try_no_errors:
  assumes "\<forall>w p. mkdir_error n w p = None" and "\<forall>w p c. write_error n w p c = None"
  shows "\<exists>p w'. save_try n c f w = (Inr p, w') \<and> Write p c \<in> set (trace w')"
proof -
  let ?d = "if process_env n ''SAVE_TO_DESKTOP'' = Some ''true''
            then path_join n [getDesktopPath n w, ''storybook-images'']
            else path_join n [process_cwd n, ''storybook-images'']"
  obtain w1 where 1: "ensureDirectoryExists n ?d w = (Inr (), w1)"
    using ensureDirectoryExists_no_errors [OF assms(1)] by blast
  obtain w2 where 2: "writeFileSync n (path_normalize n (path_join n [?d, f])) c w1 = (Inr (), w2)"
      "Write (path_normalize n (path_join n [?d, f])) c \<in> set (trace w2)"
    using writeFileSync_no_errors [OF assms(2)] by blast
  from 1 2 show ?thesis by (simp add: save_try_def Let_def)
qed

lemma saveImage_no_errors:
  assumes "\<forall>w p. mkdir_error n w p = None" and "\<forall>w p c. write_error n w p c = None"
  shows "\<exists>p w'. saveImageWithProperPath n b f w = (Inr p, w') \<and> Write p (Binary b) \<in> set (trace w')"
  using save_try_no_errors [OF assms, of "Binary b" f w]
  by (auto simp: saveImageWithProperPath_def)

lemma saveStory_no_errors:
  assumes "\<forall>w p. mkdir_error n w p = None" and "\<forall>w p c. write_error n w p c = None"
  shows "\<exists>p w'. saveStoryWithProperPath n s f w = (Inr p, w') \<and> Write p (Utf8 s) \<in> set (trace w')"
  using save_try_no_errors [OF assms, of "Utf8 s" f w]
  by (auto simp: saveStoryWithProperPath_def)

lemma emit_storybook_no_errors:
  assumes "\<forall>w p. mkdir_error n w p = None" and "\<forall>w p c. write_error n w p c = None"
  shows "\<exists>r w'. emit_storybook n prompt f story sp d w = (Inr r, w') \<and> success r \<and>
           storyPath r = sp \<and>
           Write (imagePath r) (Binary (Buffer_from_base64 (data_or_empty d))) \<in> set (trace w') \<and>
           Write (htmlPath r) (Utf8 (htmlContent prompt (imagePath r) story sp)) \<in> set (trace w')"
proof -
  let ?b = "Buffer_from_base64 (data_or_empty d)"
  obtain ip w1 where 1: "saveImageWithProperPath n ?b (outputFileName f (date_now n)) w = (Inr ip, w1)"
      "Write ip (Binary ?b) \<in> set (trace w1)"
    using saveImage_no_errors [OF assms] by blast
  let ?hp = "path_join n [path_dirname n ip, htmlFileName (outputFileName f (date_now n))]"
  obtain w2 where 2: "ensureDirectoryExists n (path_dirname n ?hp) w1 = (Inr (), w2)"
    using ensureDirectoryExists_no_errors [OF assms(1)] by blast
  obtain w3 where 3: "writeFileSync n ?hp (Utf8 (htmlContent prompt ip story sp)) w2 = (Inr (), w3)"
      "Write ?hp (Utf8 (htmlContent prompt ip story sp)) \<in> set (trace w3)"
    using writeFileSync_no_errors [OF assms(2)] by blast
  have g: "grows w1 (openInBrowser n ?hp w3)" "grows w3 (openInBrowser n ?hp w3)"
    using 2 3(1)
    by (blast intro: grows_trans ensureDirectoryExists_grows writeFileSync_grows openInBrowser_grows)+
  have "Write ip (Binary ?b) \<in> set (trace (openInBrowser n ?hp w3))"
       "Write ?hp (Utf8 (htmlContent prompt ip story sp)) \<in> set (trace (openInBrowser n ?hp w3))"
    using g 1(2) 3(2) by (blast intro: grows_mem)+
  with 1(1) 2 3(1) show ?thesis
    by (simp add: emit_storybook_def Let_def)
qed

lemma handler_no_errors:
  assumes "arg_fileName args = Some (JStr f)"
      and "\<forall>w p. mkdir_error n w p = None"
      and "\<forall>w p c. write_error n w p c = None"
      and "image_scan (resp_chunks (image_response n args)) (resp_failure (image_response n args)) = Inr d"
  shows "\<exists>r w'. handler n (storybook_request args) w = (Inr r, w') \<and> success r \<and>
            Write (imagePath r) (Binary (Buffer_from_base64 (data_or_empty d))) \<in> set (trace w') \<and>
            Write (storyPath r) (Utf8 (fst (generateStory n (arg_prompt args) w))) \<in> set (trace w') \<and>
            Write (htmlPath r)
              (Utf8 (htmlContent (arg_prompt args) (imagePath r)
                       (fst (generateStory n (arg_prompt args) w)) (storyPath r))) \<in> set (trace w')"
proof -
  let ?story = "fst (generateStory n (arg_prompt args) w)"
  obtain sp wb where s: "saveStoryWithProperPath n ?story (storyFileName f)
                           (snd (generateStory n (arg_prompt args) w)) = (Inr sp, wb)"
      "Write sp (Utf8 ?story) \<in> set (trace wb)"
    using saveStory_no_errors [OF assms(2,3)] by blast
  obtain r w' where e: "emit_storybook n (arg_prompt args) f ?story sp d (image_requested n args wb) = (Inr r, w')"
      "success r" "storyPath r = sp"
      "Write (imagePath r) (Binary (Buffer_from_base64 (data_or_empty d))) \<in> set (trace w')"
      "Write (htmlPath r) (Utf8 (htmlContent (arg_prompt args) (imagePath r) ?story sp)) \<in> set (trace w')"
    using emit_storybook_no_errors [OF assms(2,3)] by blast
  have "grows wb (image_requested n args wb)"
    by (simp add: grows_def image_requested_def)
  with e(1) have "grows wb w'"
    by (blast intro: grows_trans emit_storybook_grows)
  then have m: "Write sp (Utf8 ?story) \<in> set (trace w')"
    using s(2) by (rule grows_mem)
  have h: "handler n (storybook_request args) w = (Inr r, w')"
    using assms(1,4) s(1) e(1) by (simp add: handler_wellformed image_try_unfold)
  from h e m show ?thesis by auto
qed

lemma handler_reaches_image:
  assumes "arg_fileName args = Some (JStr f)"
      and "saveStoryWithProperPath n (fst (generateStory n (arg_prompt args) w)) (storyFileName f)
             (snd (generateStory n (arg_prompt args) w)) = (Inr sp, wb)"
  shows "grows (image_requested n args wb) (snd (handler n (storybook_request args) w))"
proof (cases "image_scan (resp_chunks (image_response n args)) (resp_failure (image_response n args))")
  case (Inl e)
  with assms show ?thesis
    by (simp add: handler_wellformed image_try_unfold grows_refl)
next
  case (Inr d)
  obtain r w' where e: "emit_storybook n (arg_prompt args) f (fst (generateStory n (arg_prompt args) w))
                          sp d (image_requested n args wb) = (r, w')"
    by fastforce
  then have "grows (image_requested n args wb) w'"
    by (rule emit_storybook_grows)
  moreover have "snd (handler n (storybook_request args) w) = w'"
    using assms Inr e by (cases r) (simp_all add: handler_wellformed image_try_unfold)
  ultimately show ?thesis by simp
qed

lemma serve_length: "length (fst (serve reqs w)) = length reqs"
proof (induction reqs arbitrary: w)
  case Nil
  then show ?case by simp
next
  case (Cons a reqs)
  obtain n req where a: "a = (n, req)" by (cases a)
  obtain r w1 where h: "handler n req w = (r, w1)" by fastforce
  obtain rs w2 where s: "serve reqs w1 = (rs, w2)" by fastforce
  from Cons [of w1] s have "length rs = length reqs" by simp
  with a h s show ?case by simp
qed

section \<open>Runs without file-system errors: the files left behind\<close>

lemma fs_le_refl: "fs_le w w"
  by (simp add: fs_le_def)

lemma fs_le_trans: "fs_le a b \<Longrightarrow> fs_le b c \<Longrightarrow> fs_le a c"
  by (simp add: fs_le_def)

lemma fs_le_trace: "fs_le w (w\<lparr>trace := t\<rparr>)"
  by (simp add: fs_le_def existsSync_def)

lemma ensureDirectoryExists_fs:
  assumes "\<forall>w p. mkdir_error n w p = None"
  shows "\<exists>w'. ensureDirectoryExists n p w = (Inr (), w') \<and> files w' = files w \<and> fs_le w w'"
  using assms
  by (auto simp: ensureDirectoryExists_def mkdirSync_def fs_le_def existsSync_def)

lemma writeFileSync_fs:
  assumes "\<forall>w p c. write_error n w p c = None"
  shows "\<exists>w'. writeFileSync n p c w = (Inr (), w') \<and> files w' = (files w)(p \<mapsto> c) \<and> fs_le w w'"
  using assms
  by (auto simp: writeFileSync_def fs_le_def existsSync_def)

lemma save_try_fs:
  assumes "\<forall>w p. mkdir_error n w p = None" and "\<forall>w p c. write_error n w p c = None"
  shows "\<exists>w'. save_try n c f w = (Inr (path_normalize n (path_join n [saveDir n w, f])), w') \<and>
           files w' = (files w)(path_normalize n (path_join n [saveDir n w, f]) \<mapsto> c) \<and>
           fs_le w w'"
proof -
  let ?p = "path_normalize n (path_join n [saveDir n w, f])"
  obtain w1 where 1: "ensureDirectoryExists n (saveDir n w) w = (Inr (), w1)"
      "files w1 = files w" "fs_le w w1"
    using ensureDirectoryExists_fs [OF assms(1)] by blast
  obtain w2 where 2: "writeFileSync n ?p c w1 = (Inr (), w2)"
      "files w2 = (files w1)(?p \<mapsto> c)" "fs_le w1 w2"
    using writeFileSync_fs [OF assms(2)] by blast
  have "save_try n c f w = (Inr ?p, w2)"
    using 1(1) 2(1) by (simp add: save_try_def Let_def saveDir_def)
  with 1 2 show ?thesis
    by (auto intro: fs_le_trans)
qed

lemma openInBrowser_fs: "files (openInBrowser n p w) = files w \<and> fs_le w (openInBrowser n p w)"
  by (simp add: openInBrowser_def Let_def fs_le_def existsSync_def)

lemma handler_run:
  assumes "arg_fileName args = Some (JStr f)"
      and "\<forall>w p. mkdir_error n w p = None"
      and "\<forall>w p c. write_error n w p c = None"
      and "image_scan (resp_chunks (image_response n args)) (resp_failure (image_response n args)) = Inr d"
  shows "\<exists>wa wb r w'.
           handler n (storybook_request args) w = (Inr r, w') \<and>
           fs_le w wa \<and> fs_le wa w' \<and> fs_le w wb \<and> fs_le wb w' \<and>
           storyPath r = path_normalize n (path_join n [saveDir n wa, storyFileName f]) \<and>
           imagePath r =
             path_normalize n (path_join n [saveDir n wb, outputFileName f (date_now n)]) \<and>
           htmlPath r =
             path_join n [path_dirname n (imagePath r), htmlFileName (outputFileName f (date_now n))] \<and>
           files w' =
             (files w)(storyPath r \<mapsto> Utf8 (fst (generateStory n (arg_prompt args) w)),
                       imagePath r \<mapsto> Binary (Buffer_from_base64 (data_or_empty d)),
                       htmlPath r \<mapsto>
                         Utf8 (htmlContent (arg_prompt args) (imagePath r)
                                 (fst (generateStory n (arg_prompt args) w)) (storyPath r)))"
proof -
  let ?story = "fst (generateStory n (arg_prompt args) w)"
  let ?b = "Buffer_from_base64 (data_or_empty d)"
  let ?wa = "snd (generateStory n (arg_prompt args) w)"
  let ?S = "storyFileName f"
  let ?I = "outputFileName f (date_now n)"
  let ?sp = "path_normalize n (path_join n [saveDir n ?wa, ?S])"
  have wa: "fs_le w ?wa" "files ?wa = files w"
    by (simp_all add: generateStory_def fs_le_trace)
  obtain w1 where s: "save_try n (Utf8 ?story) ?S ?wa = (Inr ?sp, w1)"
      "files w1 = (files ?wa)(?sp \<mapsto> Utf8 ?story)" "fs_le ?wa w1"
    using save_try_fs [OF assms(2,3)] by blast
  then have s': "saveStoryWithProperPath n ?story ?S ?wa = (Inr ?sp, w1)"
    by (simp add: saveStoryWithProperPath_def)
  let ?wb = "image_requested n args w1"
  have wb: "fs_le w1 ?wb" "files ?wb = files w1"
    by (simp_all add: image_requested_def fs_le_trace)
  let ?ip = "path_normalize n (path_join n [saveDir n ?wb, ?I])"
  obtain w2 where i: "save_try n (Binary ?b) ?I ?wb = (Inr ?ip, w2)"
      "files w2 = (files ?wb)(?ip \<mapsto> Binary ?b)" "fs_le ?wb w2"
    using save_try_fs [OF assms(2,3)] by blast
  then have i': "saveImageWithProperPath n ?b ?I ?wb = (Inr ?ip, w2)"
    by (simp add: saveImageWithProperPath_def)
  let ?hp = "path_join n [path_dirname n ?ip, htmlFileName ?I]"
  let ?html = "Utf8 (htmlContent (arg_prompt args) ?ip ?story ?sp)"
  obtain w3 where e: "ensureDirectoryExists n (path_dirname n ?hp) w2 = (Inr (), w3)"
      "files w3 = files w2" "fs_le w2 w3"
    using ensureDirectoryExists_fs [OF assms(2)] by blast
  obtain w4 where h: "writeFileSync n ?hp ?html w3 = (Inr (), w4)"
      "files w4 = (files w3)(?hp \<mapsto> ?html)" "fs_le w3 w4"
    using writeFileSync_fs [OF assms(3)] by blast
  let ?w' = "openInBrowser n ?hp w4"
  let ?r = "\<lparr>success = True, imagePath = ?ip, storyPath = ?sp, htmlPath = ?hp,
             content_text =
               ''Storybook generated successfully!\<newline>Image saved to: '' @ ?ip @
               ''\<newline>Story saved to: '' @ ?sp @ ''\<newline>Preview HTML: '' @ ?hp,
             message = ''Storybook image and story generated and saved''\<rparr>"
  have em: "emit_storybook n (arg_prompt args) f ?story ?sp d ?wb = (Inr ?r, ?w')"
    using i' e(1) h(1) by (simp add: emit_storybook_def Let_def)
  have hd: "handler n (storybook_request args) w = (Inr ?r, ?w')"
    using assms(1,4) s' em by (simp add: handler_wellformed image_try_unfold)
  have o: "files ?w' = files w4" "fs_le w4 ?w'"
    using openInBrowser_fs [of n ?hp w4] by simp_all
  have f1: "fs_le ?wb ?w'"
    using i(3) e(3) h(3) o(2) by (blast intro: fs_le_trans)
  have f2: "fs_le ?wa ?w'"
    using s(3) wb(1) f1 by (blast intro: fs_le_trans)
  have f3: "fs_le w ?wb"
    using wa(1) s(3) wb(1) by (blast intro: fs_le_trans)
  have fl: "files ?w' = (files w)(?sp \<mapsto> Utf8 ?story, ?ip \<mapsto> Binary ?b, ?hp \<mapsto> ?html)"
    using o(1) h(2) e(2) i(2) wb(2) s(2) wa(2) by simp
  from hd wa(1) f2 f3 f1 fl show ?thesis
    by (intro exI [of _ ?wa] exI [of _ ?wb] exI [of _ ?r] exI [of _ ?w']) simp
qed

lemma getDesktopPath_host_later: "getDesktopPath (host_later n t g) w = getDesktopPath n w"
  by (simp add: getDesktopPath_def host_later_def Let_def split: option.splits platform.splits)

lemma saveDir_host_later: "saveDir (host_later n t g) w = saveDir n w"
  by (simp add: saveDir_def getDesktopPath_host_later) (simp add: host_later_def)

lemma rev4_append: "length z \<ge> 4 \<Longrightarrow> take 4 (rev (q @ z)) = take 4 (rev z)"
  by simp

lemma plain_png: "no_separator t \<Longrightarrow> plain_suffix (''_'' @ t @ ''.png'')"
  by (simp add: plain_suffix_def no_separator_def)

lemma plain_story: "plain_suffix ''_story.txt''"
  by (simp add: plain_suffix_def)

lemma plain_preview: "plain_suffix ''_preview.html''"
  by (simp add: plain_suffix_def)

lemma tail_png: "take 4 (rev (q @ ''_'' @ t @ ''.png'')) = ''gnp.''"
  by simp

lemma tail_txt: "take 4 (rev (q @ ''_story.txt'')) = ''txt.''"
  by simp

lemma tail_html: "take 4 (rev (q @ ''_preview.html'')) = ''lmth''"
  by simp

lemma no_separator_timestamp: "no_separator t \<Longrightarrow> no_separator (dash_colons_dots t)"
  by (auto simp: no_separator_def dash_colons_dots_def)

section \<open>Worked runs\<close>

lemma Buffer_hi: "Buffer_from_base64 ''aGk='' = [104, 105]"
  by (simp add: Buffer_from_base64_def b64_value_def List.map_filter_simps)

lemma Buffer_yo: "Buffer_from_base64 ''eW8='' = [121, 111]"
  by (simp add: Buffer_from_base64_def b64_value_def List.map_filter_simps)

lemma later_provider_story [simp]:
  "later_provider storyModel p = Response [text_chunk ''Twice''] None"
  by (simp add: later_provider_def)

lemma later_provider_image [simp]:
  "later_provider imageModel p = Response [image_chunk (Some ''eW8='')] None"
  by (simp add: later_provider_def models_differ)

lemmas handler_defs = handler_def tool_body_def storybook_request_def image_try_def
  emit_storybook_def openInBrowser_def image_catch_def outer_catch_def

lemmas run_defs = handler_defs fs_defs story_defs image_defs name_defs slash_dirname_def
  Buffer_hi Buffer_yo demo_node_def later_node_def demo_world_def

lemma demo_handler:
  assumes "arg_fileName args = Some (JStr ''dragon1'')"
  shows "handler demo_node (storybook_request args) demo_world =
    (Inr \<lparr>success = True,
          imagePath = ''/srv/storybook-images/dragon1_2025-01-02T03-04-05-678Z.png'',
          storyPath = ''/srv/storybook-images/dragon1_story.txt'',
          htmlPath = ''/srv/storybook-images/dragon1_2025-01-02T03-04-05-678Z_preview.html'',
          content_text =
            ''Storybook generated successfully!\<newline>Image saved to: /srv/storybook-images/dragon1_2025-01-02T03-04-05-678Z.png\<newline>Story saved to: /srv/storybook-images/dragon1_story.txt\<newline>Preview HTML: /srv/storybook-images/dragon1_2025-01-02T03-04-05-678Z_preview.html'',
          message = ''Storybook image and story generated and saved''\<rparr>,
     \<lparr>files = [''/srv/storybook-images/dragon1_story.txt'' \<mapsto> Utf8 ''Once more'',
               ''/srv/storybook-images/dragon1_2025-01-02T03-04-05-678Z.png'' \<mapsto> Binary [104, 105],
               ''/srv/storybook-images/dragon1_2025-01-02T03-04-05-678Z_preview.html'' \<mapsto>
                 Utf8 (htmlContent (arg_prompt args)
                         ''/srv/storybook-images/dragon1_2025-01-02T03-04-05-678Z.png'' ''Once more''
                         ''/srv/storybook-images/dragon1_story.txt'')],
      dirs = {''/srv/storybook-images'', ''/srv'', ''/h''},
      trace =
        [GenRequest storyModel (storyPrompt (arg_prompt args)),
         Mkdir ''/srv/storybook-images'',
         Write ''/srv/storybook-images/dragon1_story.txt'' (Utf8 ''Once more''),
         GenRequest imageModel (imagePrompt (artStyle_of args) (arg_prompt args)),
         Write ''/srv/storybook-images/dragon1_2025-01-02T03-04-05-678Z.png'' (Binary [104, 105]),
         Write ''/srv/storybook-images/dragon1_2025-01-02T03-04-05-678Z_preview.html''
           (Utf8 (htmlContent (arg_prompt args)
                    ''/srv/storybook-images/dragon1_2025-01-02T03-04-05-678Z.png'' ''Once more''
                    ''/srv/storybook-images/dragon1_story.txt''))]\<rparr>)"
  using assms
  by (simp add: handler_defs fs_defs story_defs image_defs name_defs slash_dirname_def
                Buffer_hi demo_node_def demo_world_def)

lemma slash_paths_keep_suffix:
  assumes "path_join n = slash_join" and "path_normalize n = (\<lambda>p. p)"
  shows "paths_keep_suffix n"
proof -
  have "keeps_suffix (\<lambda>x. slash_join [d, x])" for d
    unfolding keeps_suffix_def by (rule exI [of _ "\<lambda>y. d @ ''/'' @ y"]) simp
  with assms show ?thesis
    by (simp add: paths_keep_suffix_def)
qed

lemmas run_defs2 = run_defs host_later_def twin_node_def desktop_node_def

section \<open>Invocations: missing arguments, art style, image stream without or with empty data\<close>

text \<open>
  C1, as amended. The handler does not validate its arguments. A call without an
  arguments object fails at once with a protocol error of code \<open>InternalError\<close>, before any
  request to the provider and before any file operation. A call whose \<open>fileName\<close> is missing
  fails with a protocol error of code \<open>InternalError\<close> before any file operation, once the
  story has been requested from the provider. The error is the handler's
  answer: the dispatching layer goes on with the invocations that follow, and every
  invocation gets an answer.
\<close>

theorem missing_fileName_fails_before_writing:
  "(arguments req = None \<and> tool_name req = ''generate_storybook_image'' \<longrightarrow>
      handler n req w =
        (Inl (McpError InternalError
           ''Error processing request: Cannot destructure property 'prompt' of 'args' as it is undefined.''),
         w)) \<and>
   (arg_fileName args = None \<longrightarrow>
      handler n (storybook_request args) w =
        (Inl (McpError InternalError
           ''Error processing request: Cannot read properties of undefined (reading 'replace')''),
         w\<lparr>trace := trace w @ [GenRequest storyModel (storyPrompt (arg_prompt args))]\<rparr>) \<and>
      fst (serve ((n, storybook_request args) # rest) w) =
        Inl (McpError InternalError
           ''Error processing request: Cannot read properties of undefined (reading 'replace')'') #
        fst (serve rest (w\<lparr>trace := trace w @ [GenRequest storyModel (storyPrompt (arg_prompt args))]\<rparr>))) \<and>
   length (fst (serve reqs w)) = length reqs"
proof -
  have 1: "handler n req w =
        (Inl (McpError InternalError
           ''Error processing request: Cannot destructure property 'prompt' of 'args' as it is undefined.''),
         w)" if "arguments req = None" "tool_name req = ''generate_storybook_image''"
    using that by (simp add: handler_def tool_body_def outer_catch_def)
  have 2: "handler n (storybook_request args) w =
        (Inl (McpError InternalError
           ''Error processing request: Cannot read properties of undefined (reading 'replace')''),
         w\<lparr>trace := trace w @ [GenRequest storyModel (storyPrompt (arg_prompt args))]\<rparr>)"
    if "arg_fileName args = None"
    using that
    by (simp add: handler_def tool_body_def outer_catch_def storybook_request_def generateStory_def)
  have 3: "fst (serve ((n, storybook_request args) # rest) w) =
        Inl (McpError InternalError
           ''Error processing request: Cannot read properties of undefined (reading 'replace')'') #
        fst (serve rest (w\<lparr>trace := trace w @ [GenRequest storyModel (storyPrompt (arg_prompt args))]\<rparr>))"
    if "arg_fileName args = None"
    using 2 [OF that] by (simp split: prod.splits)
  from 1 2 3 serve_length show ?thesis by blast
qed

text \<open>
  A call without \<open>fileName\<close>, a call without arguments, and a failing call followed by a
  successful one.
\<close>

theorem missing_fileName_fails_before_writing_witness:
  "arg_fileName no_fileName_args = None \<and>
   handler demo_node (storybook_request no_fileName_args) demo_world =
     (Inl (McpError InternalError
        ''Error processing request: Cannot read properties of undefined (reading 'replace')''),
      demo_world\<lparr>trace := [GenRequest storyModel (storyPrompt (Some (JStr ''a dragon'')))]\<rparr>) \<and>
   handler demo_node \<lparr>tool_name = ''generate_storybook_image'', arguments = None\<rparr> demo_world =
     (Inl (McpError InternalError
        ''Error processing request: Cannot destructure property 'prompt' of 'args' as it is undefined.''),
      demo_world) \<and>
   map isl (fst (serve [(demo_node, storybook_request no_fileName_args),
                        (demo_node, storybook_request demo_args)] demo_world)) = [True, False]"
proof -
  let ?bad = "storybook_request no_fileName_args"
  let ?w1 = "demo_world\<lparr>trace := trace demo_world @
               [GenRequest storyModel (storyPrompt (arg_prompt no_fileName_args))]\<rparr>"
  have h: "arg_fileName no_fileName_args = None"
    by (simp add: no_fileName_args_def)
  have w: "?w1 = demo_world\<lparr>trace := [GenRequest storyModel (storyPrompt (Some (JStr ''a dragon'')))]\<rparr>"
    by (simp add: demo_world_def no_fileName_args_def)
  from missing_fileName_fails_before_writing
         [where args = no_fileName_args and n = demo_node and w = demo_world
            and rest = "[(demo_node, storybook_request demo_args)]"] h
  have a: "handler demo_node ?bad demo_world =
        (Inl (McpError InternalError
           ''Error processing request: Cannot read properties of undefined (reading 'replace')''), ?w1)"
    and b: "fst (serve ((demo_node, ?bad) # [(demo_node, storybook_request demo_args)]) demo_world) =
        Inl (McpError InternalError
           ''Error processing request: Cannot read properties of undefined (reading 'replace')'') #
        fst (serve [(demo_node, storybook_request demo_args)] ?w1)"
    by blast+
  have r: "arguments \<lparr>tool_name = ''generate_storybook_image'', arguments = None\<rparr> = None \<and>
           tool_name \<lparr>tool_name = ''generate_storybook_image'', arguments = None\<rparr> =
             ''generate_storybook_image''"
    by simp
  from missing_fileName_fails_before_writing
         [where req = "\<lparr>tool_name = ''generate_storybook_image'', arguments = None\<rparr>"
            and n = demo_node and w = demo_world] r
  have c: "handler demo_node \<lparr>tool_name = ''generate_storybook_image'', arguments = None\<rparr> demo_world =
     (Inl (McpError InternalError
        ''Error processing request: Cannot destructure property 'prompt' of 'args' as it is undefined.''),
      demo_world)"
    by blast
  have d: "map isl (fst (serve [(demo_node, storybook_request demo_args)] ?w1)) = [False]"
    by (simp add: run_defs demo_args_def no_fileName_args_def)
  from b d have e: "map isl (fst (serve [(demo_node, ?bad), (demo_node, storybook_request demo_args)]
                       demo_world)) = [True, False]"
    by simp
  from a have a': "handler demo_node ?bad demo_world =
        (Inl (McpError InternalError
           ''Error processing request: Cannot read properties of undefined (reading 'replace')''),
         demo_world\<lparr>trace := [GenRequest storyModel (storyPrompt (Some (JStr ''a dragon'')))]\<rparr>)"
    by (simp only: w)
  from h a' c e show ?thesis by blast
qed

text \<open>
  C1 as stated fails. A call without \<open>prompt\<close> succeeds: the story is requested for the
  text \<open>undefined\<close> and the files are written. A call without \<open>fileName\<close> fails only after
  the story has been requested.
\<close>

theorem missing_prompt_counterexample:
  "arg_prompt no_prompt_args = None \<and>
   map_sum (\<lambda>e. ()) success
     (fst (handler demo_node (storybook_request no_prompt_args) demo_world)) = Inr True \<and>
   trace (snd (handler demo_node (storybook_request no_prompt_args) demo_world)) ! 0 =
     GenRequest storyModel (storyPrompt None) \<and>
   files (snd (handler demo_node (storybook_request no_prompt_args) demo_world))
     ''/srv/storybook-images/dragon1_story.txt'' = Some (Utf8 ''Once more'') \<and>
   arg_fileName no_fileName_args = None \<and>
   trace (snd (handler demo_node (storybook_request no_fileName_args) demo_world)) =
     [GenRequest storyModel (storyPrompt (Some (JStr ''a dragon'')))]"
proof -
  have a: "arg_fileName no_prompt_args = Some (JStr ''dragon1'')"
    by (simp add: no_prompt_args_def)
  have b: "trace (snd (handler demo_node (storybook_request no_fileName_args) demo_world)) =
             [GenRequest storyModel (storyPrompt (Some (JStr ''a dragon'')))]"
    by (simp add: handler_defs generateStory_def no_fileName_args_def demo_world_def)
  show ?thesis
    by (simp add: demo_handler [OF a] b) (simp add: no_prompt_args_def no_fileName_args_def)
qed

text \<open>
  C7, as amended. Once the story is saved, the image is requested with a prompt that
  names the style \<open>3d cartoon\<close> when \<open>artStyle\<close> is absent, and the string given as
  \<open>artStyle\<close>, whatever it is, when one is given: the prompt starts with
  \<open>Generate a\<close>, the style, and \<open>style image\<close>.
\<close>

theorem artStyle_used_verbatim:
  assumes "arg_fileName args = Some (JStr f)"
      and "saveStoryWithProperPath n (fst (generateStory n (arg_prompt args) w)) (storyFileName f)
             (snd (generateStory n (arg_prompt args) w)) = (Inr sp, wb)"
  shows "(arg_artStyle args = None \<longrightarrow>
            GenRequest imageModel (imagePrompt (JStr ''3d cartoon'') (arg_prompt args))
              \<in> set (trace (snd (handler n (storybook_request args) w)))) \<and>
         (\<forall>s. arg_artStyle args = Some (JStr s) \<longrightarrow>
            GenRequest imageModel (imagePrompt (JStr s) (arg_prompt args))
              \<in> set (trace (snd (handler n (storybook_request args) w)))) \<and>
         (\<forall>s. \<exists>rest. imagePrompt (JStr s) (arg_prompt args) = ''Generate a '' @ s @ '' style image'' @ rest)"
proof -
  have "GenRequest imageModel (imagePrompt (artStyle_of args) (arg_prompt args))
          \<in> set (trace (image_requested n args wb))"
    by (simp add: image_requested_def)
  then have m: "GenRequest imageModel (imagePrompt (artStyle_of args) (arg_prompt args))
          \<in> set (trace (snd (handler n (storybook_request args) w)))"
    using handler_reaches_image [OF assms] by (blast intro: grows_mem)
  have p: "\<exists>rest. imagePrompt (JStr s) (arg_prompt args) = ''Generate a '' @ s @ '' style image'' @ rest" for s
    by (simp add: imagePrompt_def)
  from m p show ?thesis by (auto simp: artStyle_of_def)
qed

text \<open>
  A call with the style \<open>watercolor\<close> and a call without a style.
\<close>

theorem artStyle_used_verbatim_witness:
  "arg_artStyle demo_args = Some (JStr ''watercolor'') \<and>
   GenRequest imageModel (imagePrompt (JStr ''watercolor'') (Some (JStr ''a dragon'')))
     \<in> set (trace (snd (handler demo_node (storybook_request demo_args) demo_world))) \<and>
   arg_artStyle plain_args = None \<and>
   GenRequest imageModel (imagePrompt (JStr ''3d cartoon'') (Some (JStr ''a dragon'')))
     \<in> set (trace (snd (handler demo_node (storybook_request plain_args) demo_world)))"
proof -
  let ?g = "\<lambda>args. generateStory demo_node (arg_prompt args) demo_world"
  let ?s = "\<lambda>args. saveStoryWithProperPath demo_node (fst (?g args)) (storyFileName ''dragon1'')
                      (snd (?g args))"
  have f1: "arg_fileName demo_args = Some (JStr ''dragon1'')"
    by (simp add: demo_args_def)
  have f2: "arg_fileName plain_args = Some (JStr ''dragon1'')"
    by (simp add: plain_args_def)
  have "fst (?s args) = Inr ''/srv/storybook-images/dragon1_story.txt''" for args
    by (simp add: fs_defs name_defs generateStory_def demo_node_def demo_world_def)
  then have s: "?s args = (Inr ''/srv/storybook-images/dragon1_story.txt'', snd (?s args))" for args
    by (simp add: prod_eq_iff)
  have a1: "arg_artStyle demo_args = Some (JStr ''watercolor'') \<and>
            arg_prompt demo_args = Some (JStr ''a dragon'')"
    by (simp add: demo_args_def)
  have a2: "arg_artStyle plain_args = None \<and> arg_prompt plain_args = Some (JStr ''a dragon'')"
    by (simp add: plain_args_def)
  from artStyle_used_verbatim [OF f1 s [of demo_args]] a1
  have 1: "GenRequest imageModel (imagePrompt (JStr ''watercolor'') (Some (JStr ''a dragon'')))
     \<in> set (trace (snd (handler demo_node (storybook_request demo_args) demo_world)))"
    by auto
  from artStyle_used_verbatim [OF f2 s [of plain_args]] a2
  have 2: "GenRequest imageModel (imagePrompt (JStr ''3d cartoon'') (Some (JStr ''a dragon'')))
     \<in> set (trace (snd (handler demo_node (storybook_request plain_args) demo_world)))"
    by auto
  from a1 a2 1 2 show ?thesis by blast
qed

text \<open>
  C7 as stated fails: the style \<open>oil painting\<close>, outside the declared set, is sent to
  the provider in the image prompt, and no prompt with the default style is sent.
\<close>

theorem artStyle_outside_enum_counterexample:
  "arg_artStyle oil_args = Some (JStr ''oil painting'') \<and>
   trace (snd (handler demo_node (storybook_request oil_args) demo_world)) ! 3 =
     GenRequest imageModel (imagePrompt (JStr ''oil painting'') (Some (JStr ''a dragon''))) \<and>
   take 38 (imagePrompt (JStr ''oil painting'') (Some (JStr ''a dragon''))) =
     ''Generate a oil painting style image fo'' \<and>
   GenRequest imageModel (imagePrompt (JStr ''3d cartoon'') (Some (JStr ''a dragon'')))
     \<notin> set (trace (snd (handler demo_node (storybook_request oil_args) demo_world)))"
proof -
  have a: "arg_fileName oil_args = Some (JStr ''dragon1'')"
    by (simp add: oil_args_def)
  have b: "artStyle_of oil_args = JStr ''oil painting'' \<and> arg_prompt oil_args = Some (JStr ''a dragon'')
           \<and> arg_artStyle oil_args = Some (JStr ''oil painting'')"
    by (simp add: oil_args_def artStyle_of_def)
  have c: "take 38 (imagePrompt (JStr ''oil painting'') (Some (JStr ''a dragon''))) =
             ''Generate a oil painting style image fo''"
    by (simp add: imagePrompt_def)
  have d: "imagePrompt (JStr ''3d cartoon'') p \<noteq> imagePrompt (JStr ''oil painting'') p" for p
    by (simp add: imagePrompt_def)
  show ?thesis
    by (simp add: demo_handler [OF a] b c d models_differ)
qed

text \<open>
  C3. When the story has been saved and the image stream ends normally without any
  inline-data payload in any part of any chunk, the handler throws a protocol error of
  code \<open>InternalError\<close>; when no chunk has an empty \<open>candidates\<close> or \<open>parts\<close> array, its
  message is that of the error thrown after the loop, wrapped by the inner \<open>catch\<close>. The
  state left is the one after the story was saved, with the image request added to the
  trace: no directory is created and no file is written for the image or the preview,
  and the story file holds the story.
\<close>

theorem no_image_data_error:
  assumes "arg_fileName args = Some (JStr f)"
      and "saveStoryWithProperPath n (fst (generateStory n (arg_prompt args) w)) (storyFileName f)
             (snd (generateStory n (arg_prompt args) w)) = (Inr sp, wb)"
      and "resp_failure (image_response n args) = None"
      and "\<forall>ch\<in>set (resp_chunks (image_response n args)). chunk_inline_payloads ch = []"
  shows "(\<exists>m. fst (handler n (storybook_request args) w) = Inl (McpError InternalError m)) \<and>
         ((\<forall>ch\<in>set (resp_chunks (image_response n args)). \<not> empty_array_read ch) \<longrightarrow>
            fst (handler n (storybook_request args) w) =
              Inl (McpError InternalError
                ''Failed to generate image: MCP error -32603: No image data received from the API'')) \<and>
         snd (handler n (storybook_request args) w) = image_requested n args wb \<and>
         trace (snd (handler n (storybook_request args) w)) =
           trace wb @ [GenRequest imageModel (imagePrompt (artStyle_of args) (arg_prompt args))] \<and>
         dirs (snd (handler n (storybook_request args) w)) = dirs wb \<and>
         files (snd (handler n (storybook_request args) w)) = files wb \<and>
         files (snd (handler n (storybook_request args) w)) sp =
           Some (Utf8 (fst (generateStory n (arg_prompt args) w)))"
proof -
  let ?r = "image_response n args"
  let ?story = "fst (generateStory n (arg_prompt args) w)"
  obtain e where e: "image_scan (resp_chunks ?r) (resp_failure ?r) = Inl e" "instanceof_Error e"
    using image_scan_no_inline [OF assms(4)] assms(3) by auto
  have h: "handler n (storybook_request args) w = (Inl (image_catch e), image_requested n args wb)"
    using assms(1,2) e(1) by (simp add: handler_wellformed image_try_unfold)
  have 1: "\<exists>m. fst (handler n (storybook_request args) w) = Inl (McpError InternalError m)"
    using h image_catch_is_McpError [of e] by auto
  have 2: "fst (handler n (storybook_request args) w) =
             Inl (McpError InternalError
               ''Failed to generate image: MCP error -32603: No image data received from the API'')"
    if "\<forall>ch\<in>set (resp_chunks ?r). \<not> empty_array_read ch"
  proof -
    have "image_scan (resp_chunks ?r) (resp_failure ?r) =
            Inl (McpError InternalError ''No image data received from the API'')"
      using that assms(3,4) by (simp add: image_scan_clean)
    with e(1) have "e = McpError InternalError ''No image data received from the API''"
      by simp
    with h show ?thesis by (simp add: image_catch_def)
  qed
  have 3: "files wb sp = Some (Utf8 ?story)"
    using assms(2) by (rule saveStory_Inr)
  from h 1 2 3 show ?thesis
    by (simp add: image_requested_def)
qed

text \<open>
  A provider that answers the image request with text only.
\<close>

theorem no_image_data_error_witness:
  "resp_failure (image_response text_only_node demo_args) = None \<and>
   list_all (\<lambda>ch. chunk_inline_payloads ch = [] \<and> \<not> empty_array_read ch)
     (resp_chunks (image_response text_only_node demo_args)) \<and>
   fst (handler text_only_node (storybook_request demo_args) demo_world) =
     Inl (McpError InternalError
       ''Failed to generate image: MCP error -32603: No image data received from the API'') \<and>
   files (snd (handler text_only_node (storybook_request demo_args) demo_world))
     ''/srv/storybook-images/dragon1_story.txt'' = Some (Utf8 ''Once more'')"
proof -
  let ?n = text_only_node
  let ?g = "generateStory ?n (arg_prompt demo_args) demo_world"
  let ?s = "saveStoryWithProperPath ?n (fst ?g) (storyFileName ''dragon1'') (snd ?g)"
  have r: "image_response ?n demo_args = Response [text_chunk ''I cannot draw that''] None"
    by (simp add: image_response_def text_only_node_def models_differ)
  have g: "fst ?g = ''Once more''"
    by (simp add: story_defs text_only_node_def)
  have h1: "arg_fileName demo_args = Some (JStr ''dragon1'')"
    by (simp add: demo_args_def)
  have "fst ?s = Inr ''/srv/storybook-images/dragon1_story.txt''"
    by (simp add: fs_defs name_defs generateStory_def text_only_node_def demo_node_def
                  demo_world_def)
  then have h2: "?s = (Inr ''/srv/storybook-images/dragon1_story.txt'', snd ?s)"
    by (simp add: prod_eq_iff)
  have h3: "resp_failure (image_response ?n demo_args) = None"
    by (simp add: r)
  have h4: "\<forall>ch\<in>set (resp_chunks (image_response ?n demo_args)). chunk_inline_payloads ch = []"
    by (simp add: r text_chunk_def chunk_inline_payloads_def chunk_parts_def candidate_parts_def
                  List.map_filter_simps)
  have h5: "\<forall>ch\<in>set (resp_chunks (image_response ?n demo_args)). \<not> empty_array_read ch"
    by (simp add: r text_chunk_def empty_array_read_def)
  from no_image_data_error [OF h1 h2 h3 h4] h5
  have a: "fst (handler ?n (storybook_request demo_args) demo_world) =
          Inl (McpError InternalError
            ''Failed to generate image: MCP error -32603: No image data received from the API'')"
    by blast
  from no_image_data_error [OF h1 h2 h3 h4]
  have "files (snd (handler ?n (storybook_request demo_args) demo_world))
          ''/srv/storybook-images/dragon1_story.txt'' = Some (Utf8 (fst ?g))"
    by blast
  then have b: "files (snd (handler ?n (storybook_request demo_args) demo_world))
          ''/srv/storybook-images/dragon1_story.txt'' = Some (Utf8 ''Once more'')"
    by (simp only: g)
  from h3 h4 h5 a b show ?thesis by (simp add: list_all_iff)
qed

text \<open>
  C10. When the first inline data found has no \<open>data\<close> or an empty one, it is decoded
  to the empty buffer, and, no file-system operation failing, the handler returns a
  success result whose three paths were written: the image with zero bytes, the story,
  and the preview. The empty payload raises no error.
\<close>

theorem empty_image_payload_succeeds:
  assumes "arg_fileName args = Some (JStr f)"
      and "\<forall>w p. mkdir_error n w p = None"
      and "\<forall>w p c. write_error n w p c = None"
      and "image_scan (resp_chunks (image_response n args)) (resp_failure (image_response n args)) = Inr d"
      and "inline_payload d = None \<or> inline_payload d = Some []"
  shows "Buffer_from_base64 (data_or_empty d) = [] \<and>
         (\<exists>r w'. handler n (storybook_request args) w = (Inr r, w') \<and> success r \<and>
            Write (imagePath r) (Binary []) \<in> set (trace w') \<and>
            Write (storyPath r) (Utf8 (fst (generateStory n (arg_prompt args) w))) \<in> set (trace w') \<and>
            Write (htmlPath r)
              (Utf8 (htmlContent (arg_prompt args) (imagePath r)
                       (fst (generateStory n (arg_prompt args) w)) (storyPath r))) \<in> set (trace w'))"
proof -
  have b: "Buffer_from_base64 (data_or_empty d) = []"
    using assms(5) by (auto simp: data_or_empty_def Buffer_from_base64_empty)
  from handler_no_errors [OF assms(1-4), of w] b show ?thesis by simp
qed

text \<open>
  A provider whose image chunk has inline data without \<open>data\<close>.
\<close>

theorem empty_image_payload_succeeds_witness:
  "image_scan (resp_chunks (image_response empty_payload_node demo_args))
     (resp_failure (image_response empty_payload_node demo_args)) = Inr (InlineData None) \<and>
   (\<exists>r. fst (handler empty_payload_node (storybook_request demo_args) demo_world) = Inr r \<and>
        success r \<and>
        Write (imagePath r) (Binary [])
          \<in> set (trace (snd (handler empty_payload_node (storybook_request demo_args) demo_world))))"
proof -
  let ?n = empty_payload_node
  have h1: "arg_fileName demo_args = Some (JStr ''dragon1'')"
    by (simp add: demo_args_def)
  have h2: "\<forall>w p. mkdir_error ?n w p = None"
    by (simp add: empty_payload_node_def demo_node_def)
  have h3: "\<forall>w p c. write_error ?n w p c = None"
    by (simp add: empty_payload_node_def demo_node_def)
  have h4: "image_scan (resp_chunks (image_response ?n demo_args))
              (resp_failure (image_response ?n demo_args)) = Inr (InlineData None)"
    by (simp add: image_defs empty_payload_node_def models_differ)
  have h5: "inline_payload (InlineData None) = None \<or> inline_payload (InlineData None) = Some []"
    by simp
  from empty_image_payload_succeeds [OF h1 h2 h3 h4 h5, of demo_world]
  obtain r w' where "handler ?n (storybook_request demo_args) demo_world = (Inr r, w')"
      "success r" "Write (imagePath r) (Binary []) \<in> set (trace w')"
    by blast
  then have "fst (handler ?n (storybook_request demo_args) demo_world) = Inr r \<and> success r \<and>
             Write (imagePath r) (Binary [])
               \<in> set (trace (snd (handler ?n (storybook_request demo_args) demo_world)))"
    by simp
  with h4 show ?thesis by blast
qed

section \<open>Two invocations for the same file name\<close>

text \<open>
  C2, as amended. Two invocations are served one after the other on the same host, for
  the same \<open>fileName\<close>, which does not end in \<open>.png\<close>, with timestamps that differ; no
  file-system operation fails, both find inline data, and the directory resolved for
  saving stays the same while their files are added (as it does whenever desktop
  saving is off). The path functions keep the end of a file name, and the clock
  readings hold no separator. Then both succeed; the image paths are the directory
  joined with the \<open>fileName\<close>, an underscore, the timestamp and \<open>.png\<close>, and they differ;
  the story path is the same in both. After the first invocation the story file holds
  the first story; after the second it holds the second story, while the first image
  file still holds the first image and the second image file the second.
\<close>

theorem second_invocation_overwrites_story_only:
  assumes png: "\<not> endsWith f ''.png''"
      and ts: "dash_colons_dots (date_now n) \<noteq> dash_colons_dots t2"
      and sep: "no_separator (date_now n)" "no_separator t2"
      and f1: "arg_fileName args1 = Some (JStr f)"
      and f2: "arg_fileName args2 = Some (JStr f)"
      and mk: "\<forall>w p. mkdir_error n w p = None"
      and wr: "\<forall>w p c. write_error n w p c = None"
      and i1: "image_scan (resp_chunks (image_response n args1))
                 (resp_failure (image_response n args1)) = Inr d1"
      and i2: "image_scan (resp_chunks (image_response (host_later n t2 g2) args2))
                 (resp_failure (image_response (host_later n t2 g2) args2)) = Inr d2"
      and paths: "paths_keep_suffix n"
      and stable: "\<forall>w'. fs_le w w' \<and>
                     fs_le w' (snd (serve [(n, storybook_request args1),
                                           (host_later n t2 g2, storybook_request args2)] w)) \<longrightarrow>
                     saveDir n w' = saveDir n w"
  shows "\<exists>r1 w1 r2 w2.
           handler n (storybook_request args1) w = (Inr r1, w1) \<and>
           handler (host_later n t2 g2) (storybook_request args2) w1 = (Inr r2, w2) \<and>
           serve [(n, storybook_request args1), (host_later n t2 g2, storybook_request args2)] w =
             ([Inr r1, Inr r2], w2) \<and>
           imagePath r1 =
             path_normalize n (path_join n
               [saveDir n w, f @ ''_'' @ dash_colons_dots (date_now n) @ ''.png'']) \<and>
           imagePath r2 =
             path_normalize n (path_join n [saveDir n w, f @ ''_'' @ dash_colons_dots t2 @ ''.png'']) \<and>
           imagePath r1 \<noteq> imagePath r2 \<and>
           storyPath r1 = path_normalize n (path_join n [saveDir n w, storyFileName f]) \<and>
           storyPath r2 = storyPath r1 \<and>
           files w1 (storyPath r1) =
             Some (Utf8 (story_of (collect_story (story_response n (arg_prompt args1))))) \<and>
           files w1 (imagePath r1) = Some (Binary (Buffer_from_base64 (data_or_empty d1))) \<and>
           files w2 (storyPath r1) =
             Some (Utf8 (story_of (collect_story
                     (story_response (host_later n t2 g2) (arg_prompt args2))))) \<and>
           files w2 (imagePath r1) = Some (Binary (Buffer_from_base64 (data_or_empty d1))) \<and>
           files w2 (imagePath r2) = Some (Binary (Buffer_from_base64 (data_or_empty d2)))"
proof -
  let ?n2 = "host_later n t2 g2"
  let ?D = "saveDir n w"
  let ?P = "\<lambda>x. path_normalize n (path_join n [?D, x])"
  let ?t1 = "dash_colons_dots (date_now n)"
  let ?t2 = "dash_colons_dots t2"
  let ?I1 = "f @ ''_'' @ ?t1 @ ''.png''"
  let ?I2 = "f @ ''_'' @ ?t2 @ ''.png''"
  have n2: "path_join ?n2 = path_join n" "path_normalize ?n2 = path_normalize n"
      "path_dirname ?n2 = path_dirname n" "date_now ?n2 = t2"
      "\<forall>w p. mkdir_error ?n2 w p = None" "\<forall>w p c. write_error ?n2 w p c = None"
    using mk wr by (simp_all add: host_later_def)
  have o1: "outputFileName f (date_now n) = ?I1" and o2: "outputFileName f t2 = ?I2"
    using png by (simp_all add: outputFileName_def)
  obtain wa wb r1 w1 where 1: "handler n (storybook_request args1) w = (Inr r1, w1)"
      "fs_le w wa" "fs_le wa w1" "fs_le w wb" "fs_le wb w1"
      "storyPath r1 = path_normalize n (path_join n [saveDir n wa, storyFileName f])"
      "imagePath r1 = path_normalize n (path_join n [saveDir n wb, ?I1])"
      "htmlPath r1 = path_join n [path_dirname n (imagePath r1), htmlFileName ?I1]"
      "files w1 =
         (files w)(storyPath r1 \<mapsto> Utf8 (fst (generateStory n (arg_prompt args1) w)),
                   imagePath r1 \<mapsto> Binary (Buffer_from_base64 (data_or_empty d1)),
                   htmlPath r1 \<mapsto>
                     Utf8 (htmlContent (arg_prompt args1) (imagePath r1)
                             (fst (generateStory n (arg_prompt args1) w)) (storyPath r1)))"
    using handler_run [OF f1 mk wr i1, of w] unfolding o1 by blast
  obtain wc wd r2 w2 where 2: "handler ?n2 (storybook_request args2) w1 = (Inr r2, w2)"
      "fs_le w1 wc" "fs_le wc w2" "fs_le w1 wd" "fs_le wd w2"
      "storyPath r2 = path_normalize n (path_join n [saveDir n wc, storyFileName f])"
      "imagePath r2 = path_normalize n (path_join n [saveDir n wd, ?I2])"
      "htmlPath r2 = path_join n [path_dirname n (imagePath r2), htmlFileName ?I2]"
      "files w2 =
         (files w1)(storyPath r2 \<mapsto> Utf8 (fst (generateStory ?n2 (arg_prompt args2) w1)),
                    imagePath r2 \<mapsto> Binary (Buffer_from_base64 (data_or_empty d2)),
                    htmlPath r2 \<mapsto>
                      Utf8 (htmlContent (arg_prompt args2) (imagePath r2)
                              (fst (generateStory ?n2 (arg_prompt args2) w1)) (storyPath r2)))"
    using handler_run [OF f2 n2(5) n2(6) i2, of w1]
    unfolding n2(1-4) o2 saveDir_host_later by blast
  have sv: "serve [(n, storybook_request args1), (?n2, storybook_request args2)] w =
              ([Inr r1, Inr r2], w2)"
    using 1(1) 2(1) by simp
  have le: "fs_le w1 w2" "fs_le w w1"
    using 1(2,3) 2(2,3) by (blast intro: fs_le_trans)+
  have st: "saveDir n w' = ?D" if "fs_le w w'" "fs_le w' w2" for w'
    using stable [unfolded sv] that by simp
  have da: "saveDir n wa = ?D" "saveDir n wb = ?D" "saveDir n wc = ?D" "saveDir n wd = ?D"
    using 1(2-5) 2(2-5) le by (blast intro: st fs_le_trans)+
  have kn: "keeps_suffix ?P" and kj: "keeps_suffix (\<lambda>x. path_join n [d, x])" for d
    using paths by (simp_all add: paths_keep_suffix_def)
  obtain q where q: "\<And>y z. plain_suffix z \<Longrightarrow> ?P (y @ z) = q y @ z"
    using kn unfolding keeps_suffix_def by blast
  obtain h1 where h1: "\<And>y z. plain_suffix z \<Longrightarrow>
                         path_join n [path_dirname n (imagePath r1), y @ z] = h1 y @ z"
    using kj [of "path_dirname n (imagePath r1)"] unfolding keeps_suffix_def by blast
  obtain h2 where h2: "\<And>y z. plain_suffix z \<Longrightarrow>
                         path_join n [path_dirname n (imagePath r2), y @ z] = h2 y @ z"
    using kj [of "path_dirname n (imagePath r2)"] unfolding keeps_suffix_def by blast
  have p1: "imagePath r1 = ?P ?I1" and p2: "imagePath r2 = ?P ?I2"
    and ps: "storyPath r1 = ?P (storyFileName f)" and ps2: "storyPath r2 = storyPath r1"
    using 1(6,7) 2(6,7) da by simp_all
  have e1: "imagePath r1 = q f @ ''_'' @ ?t1 @ ''.png''"
    using q [OF plain_png [OF no_separator_timestamp [OF sep(1)]], of f] by (simp add: p1)
  have e2: "imagePath r2 = q f @ ''_'' @ ?t2 @ ''.png''"
    using q [OF plain_png [OF no_separator_timestamp [OF sep(2)]], of f] by (simp add: p2)
  have es: "storyPath r1 = q (strip_extension f) @ ''_story.txt''"
    using q [OF plain_story, of "strip_extension f"] by (simp add: ps storyFileName_def)
  have eh1: "htmlPath r1 = h1 (remove_first ''.png'' ?I1) @ ''_preview.html''"
    using h1 [OF plain_preview, of "remove_first ''.png'' ?I1"] by (simp add: 1(8) htmlFileName_def)
  have eh2: "htmlPath r2 = h2 (remove_first ''.png'' ?I2) @ ''_preview.html''"
    using h2 [OF plain_preview, of "remove_first ''.png'' ?I2"] by (simp add: 2(8) htmlFileName_def)
  have k1: "take 4 (rev (imagePath r1)) = ''gnp.''" "take 4 (rev (imagePath r2)) = ''gnp.''"
    by (simp_all only: e1 e2 tail_png)
  have k2: "take 4 (rev (storyPath r1)) = ''txt.''"
    by (simp only: es tail_txt)
  have k3: "take 4 (rev (htmlPath r1)) = ''lmth''" "take 4 (rev (htmlPath r2)) = ''lmth''"
    by (simp_all only: eh1 eh2 tail_html)
  have d12: "imagePath r1 \<noteq> imagePath r2"
    using ts by (simp add: e1 e2)
  have ds: "storyPath r1 \<noteq> imagePath r1" "storyPath r1 \<noteq> imagePath r2"
      "storyPath r1 \<noteq> htmlPath r1" "storyPath r1 \<noteq> htmlPath r2"
    using k1 k2 k3 by auto
  have dh: "imagePath r1 \<noteq> htmlPath r1" "imagePath r1 \<noteq> htmlPath r2"
      "imagePath r2 \<noteq> htmlPath r2"
    using k1 k3 by auto
  have g1: "fst (generateStory n (arg_prompt args1) w) =
              story_of (collect_story (story_response n (arg_prompt args1)))"
    and g2: "fst (generateStory ?n2 (arg_prompt args2) w1) =
              story_of (collect_story (story_response ?n2 (arg_prompt args2)))"
    by (simp_all add: generateStory_fst)
  have a1: "files w1 (storyPath r1) =
              Some (Utf8 (story_of (collect_story (story_response n (arg_prompt args1)))))"
    using ds dh by (simp add: 1(9) g1)
  have a2: "files w1 (imagePath r1) = Some (Binary (Buffer_from_base64 (data_or_empty d1)))"
    using ds dh by (simp add: 1(9))
  have b1: "files w2 (storyPath r1) =
              Some (Utf8 (story_of (collect_story (story_response ?n2 (arg_prompt args2)))))"
    using ds dh by (simp add: 2(9) ps2 g2)
  have b2: "files w2 (imagePath r1) = Some (Binary (Buffer_from_base64 (data_or_empty d1)))"
    using ds dh d12 a2 by (simp add: 2(9) ps2)
  have b3: "files w2 (imagePath r2) = Some (Binary (Buffer_from_base64 (data_or_empty d2)))"
    using ds dh by (simp add: 2(9) ps2)
  from 1(1) 2(1) sv p1 p2 d12 ps ps2 a1 a2 b1 b2 b3 show ?thesis
    by blast
qed

text \<open>
  Two invocations for \<open>dragon1\<close> one second apart, with desktop saving off and with
  desktop saving on.
\<close>

theorem second_invocation_overwrites_story_only_witness:
  "\<not> endsWith ''dragon1'' ''.png'' \<and>
   dash_colons_dots (date_now demo_node) \<noteq> dash_colons_dots ''2025-01-02T03:04:06.001Z'' \<and>
   paths_keep_suffix demo_node \<and>
   (\<exists>r1 w1 r2 w2.
      serve [(demo_node, storybook_request plain_args),
             (host_later demo_node ''2025-01-02T03:04:06.001Z'' later_provider,
              storybook_request second_args)] demo_world = ([Inr r1, Inr r2], w2) \<and>
      handler demo_node (storybook_request plain_args) demo_world = (Inr r1, w1) \<and>
      imagePath r1 = ''/srv/storybook-images/dragon1_2025-01-02T03-04-05-678Z.png'' \<and>
      imagePath r2 = ''/srv/storybook-images/dragon1_2025-01-02T03-04-06-001Z.png'' \<and>
      storyPath r1 = ''/srv/storybook-images/dragon1_story.txt'' \<and>
      storyPath r2 = storyPath r1 \<and>
      files w1 (storyPath r1) = Some (Utf8 ''Once more'') \<and>
      files w1 (imagePath r1) = Some (Binary [104, 105]) \<and>
      files w2 (storyPath r1) = Some (Utf8 ''Twice'') \<and>
      files w2 (imagePath r1) = Some (Binary [104, 105]) \<and>
      files w2 (imagePath r2) = Some (Binary [121, 111])) \<and>
   process_env desktop_node ''SAVE_TO_DESKTOP'' = Some ''true'' \<and>
   (\<exists>r1 w1 r2 w2.
      serve [(desktop_node, storybook_request plain_args),
             (host_later desktop_node ''2025-01-02T03:04:06.001Z'' later_provider,
              storybook_request second_args)] demo_world = ([Inr r1, Inr r2], w2) \<and>
      imagePath r1 = ''/h/storybook-images/dragon1_2025-01-02T03-04-05-678Z.png'' \<and>
      imagePath r2 = ''/h/storybook-images/dragon1_2025-01-02T03-04-06-001Z.png'' \<and>
      storyPath r1 = ''/h/storybook-images/dragon1_story.txt'' \<and>
      storyPath r2 = storyPath r1 \<and>
      files w2 (storyPath r1) = Some (Utf8 ''Twice'') \<and>
      files w2 (imagePath r1) = Some (Binary [104, 105]) \<and>
      files w2 (imagePath r2) = Some (Binary [121, 111]))"
proof -
  let ?T = "''2025-01-02T03:04:06.001Z''"
  let ?f = "''dragon1''"
  have png: "\<not> endsWith ?f ''.png''"
    by (simp add: endsWith_def)
  have t1: "dash_colons_dots (date_now demo_node) = ''2025-01-02T03-04-05-678Z''"
    and t1': "dash_colons_dots (date_now desktop_node) = ''2025-01-02T03-04-05-678Z''"
    and t2: "dash_colons_dots ?T = ''2025-01-02T03-04-06-001Z''"
    by (simp_all add: dash_colons_dots_def demo_node_def desktop_node_def)
  have ts: "dash_colons_dots (date_now demo_node) \<noteq> dash_colons_dots ?T"
    and ts': "dash_colons_dots (date_now desktop_node) \<noteq> dash_colons_dots ?T"
    by (simp_all add: t1 t1' t2)
  have sep: "no_separator (date_now demo_node)" "no_separator (date_now desktop_node)"
      "no_separator ?T"
    by (simp_all add: no_separator_def demo_node_def desktop_node_def)
  have f1: "arg_fileName plain_args = Some (JStr ?f)"
    and f2: "arg_fileName second_args = Some (JStr ?f)"
    by (simp_all add: plain_args_def second_args_def)
  have s1: "story_of (collect_story (story_response n (arg_prompt plain_args))) = ''Once more''"
    if "generateContentStream n = demo_provider" for n
    using that by (simp add: story_defs)
  have s2: "story_of (collect_story (story_response (host_later n ?T later_provider)
              (arg_prompt second_args))) = ''Twice''" for n
    by (simp add: story_defs host_later_def)
  have b1: "Buffer_from_base64 (data_or_empty (InlineData (Some ''aGk=''))) = [104, 105]"
    and b2: "Buffer_from_base64 (data_or_empty (InlineData (Some ''eW8=''))) = [121, 111]"
    by (simp_all add: data_or_empty_def Buffer_hi Buffer_yo)
  have nm: "storyFileName ?f = ''dragon1_story.txt''"
    by (simp add: name_defs)
  let ?n = demo_node
  have mk: "\<forall>w p. mkdir_error ?n w p = None" and wr: "\<forall>w p c. write_error ?n w p c = None"
    by (simp_all add: demo_node_def)
  have i1: "image_scan (resp_chunks (image_response ?n plain_args))
              (resp_failure (image_response ?n plain_args)) = Inr (InlineData (Some ''aGk=''))"
    by (simp add: image_defs demo_node_def)
  have i2: "image_scan (resp_chunks (image_response (host_later ?n ?T later_provider) second_args))
              (resp_failure (image_response (host_later ?n ?T later_provider) second_args)) =
              Inr (InlineData (Some ''eW8=''))"
    by (simp add: image_defs host_later_def)
  have paths: "paths_keep_suffix ?n"
    by (rule slash_paths_keep_suffix) (simp_all add: demo_node_def)
  have dir: "saveDir ?n w' = ''/srv/storybook-images''" for w'
    by (simp add: saveDir_def demo_node_def)
  have stable: "\<forall>w'. fs_le demo_world w' \<and>
                  fs_le w' (snd (serve [(?n, storybook_request plain_args),
                                        (host_later ?n ?T later_provider,
                                         storybook_request second_args)] demo_world)) \<longrightarrow>
                  saveDir ?n w' = saveDir ?n demo_world"
    by (simp add: dir)
  have pth: "path_normalize ?n (path_join ?n [''/srv/storybook-images'', x]) =
               ''/srv/storybook-images/'' @ x" for x
    by (simp add: demo_node_def)
  have g: "generateContentStream ?n = demo_provider"
    by (simp add: demo_node_def)
  from second_invocation_overwrites_story_only
         [OF png ts sep(1) sep(3) f1 f2 mk wr i1 i2 paths stable]
  have a: "\<exists>r1 w1 r2 w2.
      serve [(?n, storybook_request plain_args),
             (host_later ?n ?T later_provider, storybook_request second_args)] demo_world =
        ([Inr r1, Inr r2], w2) \<and>
      handler ?n (storybook_request plain_args) demo_world = (Inr r1, w1) \<and>
      imagePath r1 = ''/srv/storybook-images/dragon1_2025-01-02T03-04-05-678Z.png'' \<and>
      imagePath r2 = ''/srv/storybook-images/dragon1_2025-01-02T03-04-06-001Z.png'' \<and>
      storyPath r1 = ''/srv/storybook-images/dragon1_story.txt'' \<and>
      storyPath r2 = storyPath r1 \<and>
      files w1 (storyPath r1) = Some (Utf8 ''Once more'') \<and>
      files w1 (imagePath r1) = Some (Binary [104, 105]) \<and>
      files w2 (storyPath r1) = Some (Utf8 ''Twice'') \<and>
      files w2 (imagePath r1) = Some (Binary [104, 105]) \<and>
      files w2 (imagePath r2) = Some (Binary [121, 111])"
    unfolding dir pth t1 t2 nm s1 [OF g] s2 b1 b2 append.simps by blast
  let ?m = desktop_node
  let ?fin = "snd (serve [(?m, storybook_request plain_args),
                          (host_later ?m ?T later_provider, storybook_request second_args)]
                     demo_world)"
  have env: "process_env ?m ''SAVE_TO_DESKTOP'' = Some ''true''"
    by (simp add: desktop_node_def)
  have mk': "\<forall>w p. mkdir_error ?m w p = None" and wr': "\<forall>w p c. write_error ?m w p c = None"
    by (simp_all add: desktop_node_def demo_node_def)
  have i1': "image_scan (resp_chunks (image_response ?m plain_args))
              (resp_failure (image_response ?m plain_args)) = Inr (InlineData (Some ''aGk=''))"
    by (simp add: image_defs desktop_node_def demo_node_def)
  have i2': "image_scan (resp_chunks (image_response (host_later ?m ?T later_provider) second_args))
              (resp_failure (image_response (host_later ?m ?T later_provider) second_args)) =
              Inr (InlineData (Some ''eW8=''))"
    by (simp add: image_defs host_later_def)
  have paths': "paths_keep_suffix ?m"
    by (rule slash_paths_keep_suffix) (simp_all add: desktop_node_def demo_node_def)
  have nd: "\<not> existsSync ?fin ''/h/Desktop''"
    by (simp add: run_defs2 plain_args_def second_args_def)
  have dir': "saveDir ?m w' = ''/h/storybook-images''" if "\<not> existsSync w' ''/h/Desktop''" for w'
    using that by (simp add: saveDir_def getDesktopPath_def desktop_node_def demo_node_def)
  have d0: "saveDir ?m demo_world = ''/h/storybook-images''"
    by (rule dir') (simp add: existsSync_def demo_world_def)
  have stable': "\<forall>w'. fs_le demo_world w' \<and> fs_le w' ?fin \<longrightarrow>
                   saveDir ?m w' = saveDir ?m demo_world"
    using nd dir' d0 by (auto simp: fs_le_def)
  have pth': "path_normalize ?m (path_join ?m [''/h/storybook-images'', x]) =
               ''/h/storybook-images/'' @ x" for x
    by (simp add: desktop_node_def demo_node_def)
  have g': "generateContentStream ?m = demo_provider"
    by (simp add: desktop_node_def demo_node_def)
  from second_invocation_overwrites_story_only
         [OF png ts' sep(2) sep(3) f1 f2 mk' wr' i1' i2' paths' stable']
  have b: "\<exists>r1 w1 r2 w2.
      serve [(?m, storybook_request plain_args),
             (host_later ?m ?T later_provider, storybook_request second_args)] demo_world =
        ([Inr r1, Inr r2], w2) \<and>
      imagePath r1 = ''/h/storybook-images/dragon1_2025-01-02T03-04-05-678Z.png'' \<and>
      imagePath r2 = ''/h/storybook-images/dragon1_2025-01-02T03-04-06-001Z.png'' \<and>
      storyPath r1 = ''/h/storybook-images/dragon1_story.txt'' \<and>
      storyPath r2 = storyPath r1 \<and>
      files w2 (storyPath r1) = Some (Utf8 ''Twice'') \<and>
      files w2 (imagePath r1) = Some (Binary [104, 105]) \<and>
      files w2 (imagePath r2) = Some (Binary [121, 111])"
    unfolding d0 pth' t1' t2 nm s1 [OF g'] s2 b1 b2 append.simps by blast
  from png ts paths a env b show ?thesis by blast
qed

text \<open>
  C2 as stated fails. For a \<open>fileName\<close> that ends in \<open>.png\<close> no timestamp is appended:
  both invocations write the image to the same path, and the second image replaces the
  first. The same happens for any \<open>fileName\<close> when the two invocations read the same
  timestamp.
\<close>

theorem same_image_name_counterexample:
  "date_now demo_node \<noteq> date_now later_node \<and>
   arg_prompt png_args \<noteq> arg_prompt second_png_args \<and>
   arg_fileName png_args = Some (JStr ''pic.png'') \<and>
   arg_fileName second_png_args = Some (JStr ''pic.png'') \<and>
   outputFileName ''pic.png'' (date_now demo_node) = ''pic.png'' \<and>
   outputFileName ''pic.png'' (date_now later_node) = ''pic.png'' \<and>
   map (map_sum (\<lambda>e. ()) imagePath)
     (fst (serve [(demo_node, storybook_request png_args),
                  (later_node, storybook_request second_png_args)] demo_world)) =
     [Inr ''/srv/storybook-images/pic.png'', Inr ''/srv/storybook-images/pic.png''] \<and>
   files (snd (handler demo_node (storybook_request png_args) demo_world))
     ''/srv/storybook-images/pic.png'' = Some (Binary [104, 105]) \<and>
   files (snd (serve [(demo_node, storybook_request png_args),
                      (later_node, storybook_request second_png_args)] demo_world))
     ''/srv/storybook-images/pic.png'' = Some (Binary [121, 111]) \<and>
   date_now twin_node = date_now demo_node \<and>
   arg_prompt plain_args \<noteq> arg_prompt second_args \<and>
   arg_fileName plain_args = Some (JStr ''dragon1'') \<and>
   arg_fileName second_args = Some (JStr ''dragon1'') \<and>
   map (map_sum (\<lambda>e. ()) imagePath)
     (fst (serve [(demo_node, storybook_request plain_args),
                  (twin_node, storybook_request second_args)] demo_world)) =
     [Inr ''/srv/storybook-images/dragon1_2025-01-02T03-04-05-678Z.png'',
      Inr ''/srv/storybook-images/dragon1_2025-01-02T03-04-05-678Z.png''] \<and>
   files (snd (handler demo_node (storybook_request plain_args) demo_world))
     ''/srv/storybook-images/dragon1_2025-01-02T03-04-05-678Z.png'' = Some (Binary [104, 105]) \<and>
   files (snd (serve [(demo_node, storybook_request plain_args),
                      (twin_node, storybook_request second_args)] demo_world))
     ''/srv/storybook-images/dragon1_2025-01-02T03-04-05-678Z.png'' = Some (Binary [121, 111])"
  by (simp add: run_defs2 png_args_def second_png_args_def plain_args_def second_args_def)

section \<open>Bootstrap precedence\<close>

text \<open>
  C8. The code departs from the claim on both counts. Started through \<open>cli.ts\<close> with
  \<open>--api-key cli-key\<close> and \<open>GEMINI_API_KEY\<close> set to \<open>env-key\<close>, the server runs with
  \<open>env-key\<close>, and with no key in the environment it exits with code 1, because
  \<open>index.ts\<close> has fixed its key before \<open>cli.ts\<close> looks at the command line; started
  through \<open>run.mjs\<close> the same command line gives \<open>cli-key\<close>. And with \<open>SAVE_TO_DESKTOP\<close> and
  \<open>DEBUG\<close> set to \<open>true\<close> in the environment and neither flag passed, \<open>run.mjs\<close> hands
  \<open>false\<close> for both to the server, its test for \<open>undefined\<close> being always true as the
  options default to \<open>false\<close>; \<open>cli.ts\<close> writes \<open>false\<close> as well.
\<close>

theorem cli_key_ignored_flags_overwritten:
  "passed_api_key key_flag = Some ''cli-key'' \<and>
   desktop_env ''GEMINI_API_KEY'' = Some ''env-key'' \<and>
   cli_ts key_flag Map.empty desktop_env =
     Serving (Some ''env-key'') (cli_ts_env (parseArgs key_flag) (dotenv_config Map.empty desktop_env)) \<and>
   cli_ts key_flag Map.empty Map.empty = Exited 1 \<and>
   run_mjs key_flag Map.empty Map.empty =
     Serving (Some ''cli-key'')
       (dotenv_config Map.empty (run_mjs_env (parseArgs key_flag) Map.empty)) \<and>
   passed_save_to_desktop no_flags = False \<and>
   passed_debug no_flags = False \<and>
   desktop_env ''SAVE_TO_DESKTOP'' = Some ''true'' \<and>
   desktop_env ''DEBUG'' = Some ''true'' \<and>
   run_mjs no_flags Map.empty desktop_env =
     Serving (Some ''env-key'')
       (dotenv_config Map.empty (run_mjs_env (parseArgs no_flags) desktop_env)) \<and>
   run_mjs_env (parseArgs no_flags) desktop_env ''SAVE_TO_DESKTOP'' = Some ''false'' \<and>
   run_mjs_env (parseArgs no_flags) desktop_env ''DEBUG'' = Some ''false'' \<and>
   cli_ts_env (parseArgs no_flags) desktop_env ''SAVE_TO_DESKTOP'' = Some ''false'' \<and>
   cli_ts_env (parseArgs no_flags) desktop_env ''DEBUG'' = Some ''false''"
  by (simp add: cli_ts_def index_ts_def run_mjs_def run_mjs_env_def cli_ts_env_def
                set_api_key_def parseArgs_def js_or_def dotenv_config_def bool_toString_def
                key_flag_def no_flags_def desktop_env_def Let_def)

end
